theory Spec2Isabelle
  imports Main
begin

section \<open>Underlying objects\<close>

text \<open>
  The dispatcher in \<^verbatim>\<open>src/dispatchers/frameDispatcher.ts\<close> wraps objects owned by the
  browser side.  An object is known by its identity; what it answers when it is asked
  (its url, its name, the outcome of an operation) is the state it has at the moment of
  the call.  A \<open>Frame\<close> value below is the frame as one call sees it.
\<close>

datatype ElementHandle = ElementHandle (handle_id: nat)

datatype Request = Request (request_id: nat)

datatype Response = Response (response_id: nat)

text \<open>A thrown JavaScript \<^verbatim>\<open>Error\<close>; only its message is ever read.\<close>

datatype Error = Error (message: string)

text \<open>
  A JavaScript value of type \<^verbatim>\<open>T | null\<close> or \<^verbatim>\<open>T | undefined\<close>: the
  wire contract tells an absent field (\<open>Undefined\<close>) from a present null.
\<close>

datatype 'a js = Null | Undefined | Val 'a

text \<open>
  Modelled from the spec: the timeout settings of a page (class \<^verbatim>\<open>TimeoutSettings\<close> is
  outside this file).  Section 6: each page-level context supplies a default action
  timeout and a default navigation timeout; any per-call \<^verbatim>\<open>timeout\<close> param overrides
  the default for that call only.
\<close>

record TimeoutSettings =
  defaultTimeout :: nat
  defaultNavigationTimeout :: nat

record Page =
  page_id :: nat
  timeoutSettings :: TimeoutSettings

text \<open>Every params object that may carry a per-call \<^verbatim>\<open>timeout\<close>.\<close>

record TimeoutOptions =
  timeout_param :: "nat option"

definition timeout :: "TimeoutSettings \<Rightarrow> 'a TimeoutOptions_scheme \<Rightarrow> nat" where
  "timeout ts options =
     (case timeout_param options of Some t \<Rightarrow> t | None \<Rightarrow> defaultTimeout ts)"

definition navigationTimeout :: "TimeoutSettings \<Rightarrow> 'a TimeoutOptions_scheme \<Rightarrow> nat" where
  "navigationTimeout ts options =
     (case timeout_param options of Some t \<Rightarrow> t | None \<Rightarrow> defaultNavigationTimeout ts)"

section \<open>Action metadata\<close>

text \<open>
  \<^verbatim>\<open>channels.Metadata\<close> and \<^verbatim>\<open>ActionMetadata\<close> are plain JavaScript objects; the
  dispatcher builds the second from the first with an object spread, so both are maps
  from keys to values.  A value is a string or the page reference.
\<close>

datatype mvalue = MStr string | MPage nat

type_synonym Metadata = "string \<rightharpoonup> mvalue"

type_synonym ActionMetadata = "string \<rightharpoonup> mvalue"

text \<open>\<^verbatim>\<open>{ ...metadata }\<close> with an optional argument: spreading \<^verbatim>\<open>undefined\<close> adds nothing.\<close>

definition spread :: "Metadata option \<Rightarrow> ActionMetadata" where
  "spread metadata = (case metadata of None \<Rightarrow> Map.empty | Some m \<Rightarrow> m)"

section \<open>The dispatcher scope\<close>

datatype underlying =
    FrameObj nat
  | ElementHandleObj nat
  | RequestObj nat
  | ResponseObj nat

record FrameInitializer =
  fi_url :: string
  fi_name :: string
  fi_parentFrame :: "nat option"
  fi_loadStates :: "string list"

text \<open>
  The initializers of the other dispatcher kinds are built by classes outside this
  file; they are left opaque.
\<close>

datatype Initializer =
    FrameInit FrameInitializer
  | ElementHandleInit
  | RequestInit

record Dispatcher =
  guid :: nat
  dtype :: string
  object :: underlying
  initializer :: Initializer

record NewDocument =
  nd_request :: "nat option"

record NavigatedParams =
  np_url :: string
  np_name :: "string option"
  np_error :: "string option"
  np_newDocument :: "NewDocument option"

datatype EventParams =
    LoadstateAdd string
  | LoadstateRemove string
  | Navigated NavigatedParams

datatype Message =
    Create nat string Initializer
  | Event nat string EventParams

text \<open>What the instrumentation collaborator is told about an action.\<close>

datatype Outcome = Started | Succeeded | TimedOut | Failed Error

text \<open>
  The state every call threads through: the live proxy nodes in creation order, the
  messages sent to the client in emission order, the next free node id, and the
  reports handed to the instrumentation sink.
\<close>

record DispatcherScope =
  dispatchers :: "Dispatcher list"
  messages :: "Message list"
  nextGuid :: nat
  reports :: "(ActionMetadata \<times> Outcome) list"

definition emptyScope :: DispatcherScope where
  "emptyScope = \<lparr>dispatchers = [], messages = [], nextGuid = 0, reports = []\<rparr>"

text \<open>
  Modelled from the spec: \<^verbatim>\<open>existingDispatcher\<close> of \<^verbatim>\<open>dispatcher.ts\<close>, which is outside
  this file.  Section 4.1: the registry answers with the live node that wraps the
  object, or with none.
\<close>

definition existingDispatcher :: "DispatcherScope \<Rightarrow> underlying \<Rightarrow> Dispatcher option" where
  "existingDispatcher scope obj = find (\<lambda>d. object d = obj) (dispatchers scope)"

text \<open>
  Modelled from the spec: \<^verbatim>\<open>lookupNullableDispatcher\<close> of \<^verbatim>\<open>dispatcher.ts\<close>.  Section
  4.1, \<^verbatim>\<open>lookupNullable(underlyingOrNone)\<close>: returns the existing node or none without
  creating one.
\<close>

definition lookupNullableDispatcher :: "DispatcherScope \<Rightarrow> underlying option \<Rightarrow> Dispatcher option" where
  "lookupNullableDispatcher scope obj =
     (case obj of None \<Rightarrow> None | Some x \<Rightarrow> existingDispatcher scope x)"

text \<open>
  Modelled from the spec: the constructor of the base class \<^verbatim>\<open>Dispatcher\<close>.  Section
  4.1: a new node gets a fresh id, is registered, and a create message carrying its
  kind and initializer snapshot is emitted.
\<close>

definition Dispatcher_new ::
  "DispatcherScope \<Rightarrow> underlying \<Rightarrow> string \<Rightarrow> Initializer \<Rightarrow> Dispatcher \<times> DispatcherScope" where
  "Dispatcher_new scope obj kind init =
     (let d = \<lparr>guid = nextGuid scope, dtype = kind, object = obj, initializer = init\<rparr>
      in (d, scope\<lparr>dispatchers := dispatchers scope @ [d],
                   messages := messages scope @ [Create (nextGuid scope) kind init],
                   nextGuid := Suc (nextGuid scope)\<rparr>))"

text \<open>
  Modelled from the spec: \<^verbatim>\<open>_dispatchEvent\<close> of the base class.  Section 4.2: a
  notification becomes an event message scoped to the node's id.
\<close>

definition dispatchEvent_base :: "Dispatcher \<Rightarrow> string \<Rightarrow> EventParams \<Rightarrow> DispatcherScope \<Rightarrow> DispatcherScope" where
  "dispatchEvent_base this method params scope =
     scope\<lparr>messages := messages scope @ [Event (guid this) method params]\<rparr>"

section \<open>The progress controller and the action runner\<close>

text \<open>What a dispatcher method rejects with.\<close>

datatype rejection = TimeoutError ActionMetadata | Rejected Error

text \<open>
  Modelled from the spec: \<^verbatim>\<open>ProgressController\<close> of \<^verbatim>\<open>server/progress.ts\<close>, which is
  outside this file.  Section 3 and 4.3: a controller is one deadline-bound unit of
  work; it is created from a budget and the action metadata.
\<close>

record ProgressController =
  pc_timeout :: nat
  pc_metadata :: ActionMetadata

definition report :: "ActionMetadata \<Rightarrow> Outcome \<Rightarrow> DispatcherScope \<Rightarrow> DispatcherScope" where
  "report metadata outcome scope = scope\<lparr>reports := reports scope @ [(metadata, outcome)]\<rparr>"

text \<open>
  Modelled from the spec: running work under a controller (section 4.3, \<^verbatim>\<open>run\<close>).
  The work receives the controller and is described by the time it needs and the
  result it reaches.  If it completes before the deadline its result is returned; if
  the deadline elapses first the call fails with a Timeout outcome carrying the
  metadata.  The metadata is handed to the instrumentation collaborator at
  invocation start and at outcome.
\<close>

definition controller_run ::
  "ProgressController \<Rightarrow> (ProgressController \<Rightarrow> nat \<times> (Error + 'a)) \<Rightarrow> DispatcherScope
     \<Rightarrow> (rejection + 'a) \<times> DispatcherScope" where
  "controller_run controller task scope =
     (let started = report (pc_metadata controller) Started scope;
          (elapsed, result) = task controller
      in if elapsed < pc_timeout controller
         then (case result of
                 Inl e \<Rightarrow> (Inl (Rejected e), report (pc_metadata controller) (Failed e) started)
               | Inr v \<Rightarrow> (Inr v, report (pc_metadata controller) Succeeded started))
         else (Inl (TimeoutError (pc_metadata controller)),
               report (pc_metadata controller) TimedOut started))"

text \<open>
  Modelled from the spec: \<^verbatim>\<open>runAbortableTask\<close> of \<^verbatim>\<open>server/progress.ts\<close>, the
  \<^verbatim>\<open>run(work, budget, metadata)\<close> of section 4.3: it creates a controller for the
  budget and the metadata and runs the work under it.
\<close>

definition ProgressController_new :: "nat \<Rightarrow> ActionMetadata \<Rightarrow> ProgressController" where
  "ProgressController_new budget metadata = \<lparr>pc_timeout = budget, pc_metadata = metadata\<rparr>"

definition runAbortableTask ::
  "(ProgressController \<Rightarrow> nat \<times> (Error + 'a)) \<Rightarrow> nat \<Rightarrow> ActionMetadata \<Rightarrow> DispatcherScope
     \<Rightarrow> (rejection + 'a) \<times> DispatcherScope" where
  "runAbortableTask task budget metadata scope =
     controller_run (ProgressController_new budget metadata) task scope"

section \<open>Params of the frame channel\<close>

text \<open>
  The params types of \<^verbatim>\<open>protocol/channels.ts\<close> with the fields the dispatcher reads;
  a params object is handed to the frame as a whole.
\<close>

record FrameGotoParams = TimeoutOptions +
  goto_url :: string

record FrameSetContentParams = TimeoutOptions +
  html :: string

record SelectorParams = TimeoutOptions +
  selector :: string

record FrameFillParams = SelectorParams +
  fill_value :: string

record FrameTypeParams = SelectorParams +
  type_text :: string

record FramePressParams = SelectorParams +
  key :: string

record FrameSelectOptionParams = SelectorParams +
  param_elements :: "Dispatcher list option"
  param_options :: "string list option"

record FrameSetInputFilesParams = SelectorParams +
  files :: "string list"

record FrameGetAttributeParams = SelectorParams +
  attr_name :: string

record FrameQuerySelectorParams =
  qs_selector :: string

record FrameAddTagParams =
  tag_url :: "string option"
  tag_content :: "string option"

text \<open>
  The value codec (\<^verbatim>\<open>parseArgument\<close>, \<^verbatim>\<open>serializeResult\<close>) is an external
  collaborator; the dispatcher takes it as it is given.
\<close>

datatype SerializedArgument = SerializedArgument string

datatype SerializedValue = SerializedValue string

datatype PageValue = PageValue string

record Codec =
  parseArgument :: "SerializedArgument \<Rightarrow> PageValue"
  serializeResult :: "PageValue \<Rightarrow> SerializedValue"

record FrameEvaluateExpressionParams =
  expression :: string
  isFunction :: bool
  arg :: SerializedArgument

section \<open>The frame\<close>

text \<open>
  The operations of the underlying frame that the dispatcher awaits.  Work that runs
  under a controller is described by the time it needs and the result it reaches (for
  \<^verbatim>\<open>goto\<close> and \<^verbatim>\<open>setContent\<close> the field is the work the frame's method runs);
  an operation that owns a deadline of its own may reject with a timeout; the others
  throw an \<open>Error\<close> or return.
\<close>

record FrameOps =
  frame_gotoWork :: "ProgressController \<Rightarrow> string \<Rightarrow> FrameGotoParams \<Rightarrow> nat \<times> (Error + Response option)"
  frame_frameElement :: "Error + ElementHandle"
  frame_evaluateExpression :: "string \<Rightarrow> bool \<Rightarrow> PageValue \<Rightarrow> Error + PageValue"
  frame_waitForSelector :: "string \<Rightarrow> SelectorParams \<Rightarrow> rejection + ElementHandle option"
  frame_query :: "string \<Rightarrow> Error + ElementHandle option"
  frame_queryAll :: "string \<Rightarrow> Error + ElementHandle list"
  frame_content :: "Error + string"
  frame_setContentWork :: "ProgressController \<Rightarrow> string \<Rightarrow> FrameSetContentParams \<Rightarrow> nat \<times> (Error + unit)"
  frame_addScriptTag :: "FrameAddTagParams \<Rightarrow> Error + ElementHandle"
  frame_addStyleTag :: "FrameAddTagParams \<Rightarrow> Error + ElementHandle"
  frame_click :: "ProgressController \<Rightarrow> string \<Rightarrow> SelectorParams \<Rightarrow> nat \<times> (Error + unit)"
  frame_dblclick :: "ProgressController \<Rightarrow> string \<Rightarrow> SelectorParams \<Rightarrow> nat \<times> (Error + unit)"
  frame_fill :: "ProgressController \<Rightarrow> string \<Rightarrow> string \<Rightarrow> FrameFillParams \<Rightarrow> nat \<times> (Error + unit)"
  frame_textContent :: "string \<Rightarrow> SelectorParams \<Rightarrow> rejection + string js"
  frame_getAttribute :: "string \<Rightarrow> string \<Rightarrow> FrameGetAttributeParams \<Rightarrow> rejection + string js"
  frame_hover :: "ProgressController \<Rightarrow> string \<Rightarrow> SelectorParams \<Rightarrow> nat \<times> (Error + unit)"
  frame_selectOption ::
    "ProgressController \<Rightarrow> string \<Rightarrow> underlying list \<Rightarrow> string list \<Rightarrow> FrameSelectOptionParams
       \<Rightarrow> nat \<times> (Error + string list)"
  frame_setInputFiles ::
    "ProgressController \<Rightarrow> string \<Rightarrow> string list \<Rightarrow> FrameSetInputFilesParams \<Rightarrow> nat \<times> (Error + unit)"
  frame_type :: "ProgressController \<Rightarrow> string \<Rightarrow> string \<Rightarrow> FrameTypeParams \<Rightarrow> nat \<times> (Error + unit)"
  frame_press :: "ProgressController \<Rightarrow> string \<Rightarrow> string \<Rightarrow> FramePressParams \<Rightarrow> nat \<times> (Error + unit)"
  frame_check :: "ProgressController \<Rightarrow> string \<Rightarrow> SelectorParams \<Rightarrow> nat \<times> (Error + unit)"
  frame_uncheck :: "ProgressController \<Rightarrow> string \<Rightarrow> SelectorParams \<Rightarrow> nat \<times> (Error + unit)"
  frame_title :: "Error + string"

datatype Frame = Frame
  (frame_id: nat)
  (url: string)
  (name: string)
  (parentFrame: "Frame option")
  (subtreeLifecycleEvents: "string list")
  (page: Page)
  (ops: FrameOps)

text \<open>
  Modelled from the spec: the notification of \<^verbatim>\<open>Frame.Events.Navigation\<close> (type
  \<^verbatim>\<open>NavigationEvent\<close> of \<^verbatim>\<open>server/frames.ts\<close>).  Section 4.2: it carries a url, an
  optional name, an optional error and, if a new document load began, the document's
  information; the handler reads the document's \<^verbatim>\<open>request\<close>, which may be missing.
\<close>

record DocumentInfo =
  di_request :: "Request option"

record NavigationEvent =
  ev_url :: string
  ev_name :: "string option"
  ev_error :: "Error option"
  ev_newDocument :: "DocumentInfo option"

text \<open>
  Modelled from the spec: \<^verbatim>\<open>Frame.goto\<close> and \<^verbatim>\<open>Frame.setContent\<close> of
  \<^verbatim>\<open>server/frames.ts\<close>, which is outside this file.  They are handed the controller
  of the call.  Section 4.4 and 4.3: goto and setContent are interactive methods; their
  work is run under the controller, within its budget and with its metadata.
\<close>

definition Frame_goto ::
  "Frame \<Rightarrow> ProgressController \<Rightarrow> string \<Rightarrow> FrameGotoParams \<Rightarrow> DispatcherScope
     \<Rightarrow> (rejection + Response option) \<times> DispatcherScope" where
  "Frame_goto frame controller address options scope =
     controller_run controller (\<lambda>progress. frame_gotoWork (ops frame) progress address options) scope"

definition Frame_setContent ::
  "Frame \<Rightarrow> ProgressController \<Rightarrow> string \<Rightarrow> FrameSetContentParams \<Rightarrow> DispatcherScope
     \<Rightarrow> (rejection + unit) \<times> DispatcherScope" where
  "Frame_setContent frame controller markup options scope =
     controller_run controller (\<lambda>progress. frame_setContentWork (ops frame) progress markup options) scope"

section \<open>Dispatchers of other kinds\<close>

text \<open>
  Modelled from the spec: the constructor of \<^verbatim>\<open>ElementHandleDispatcher\<close>
  (\<^verbatim>\<open>elementHandlerDispatcher.ts\<close> is outside this file): it builds a new node of kind
  ElementHandle for the handle through the base constructor.
\<close>

definition ElementHandleDispatcher_new :: "DispatcherScope \<Rightarrow> ElementHandle \<Rightarrow> Dispatcher \<times> DispatcherScope" where
  "ElementHandleDispatcher_new scope handle =
     Dispatcher_new scope (ElementHandleObj (handle_id handle)) ''ElementHandle'' ElementHandleInit"

text \<open>
  Modelled from the spec: \<^verbatim>\<open>ElementHandleDispatcher.createNullable\<close>.  Section 4.1 and
  4.4: a method result may legitimately be absent (no matching element); then there is
  no node.
\<close>

definition createNullable :: "DispatcherScope \<Rightarrow> ElementHandle option \<Rightarrow> Dispatcher option \<times> DispatcherScope" where
  "createNullable scope handle =
     (case handle of
        None \<Rightarrow> (None, scope)
      | Some h \<Rightarrow> (let (d, scope') = ElementHandleDispatcher_new scope h in (Some d, scope')))"

text \<open>
  Modelled from the spec: \<^verbatim>\<open>RequestDispatcher.from\<close> and \<^verbatim>\<open>fromNullable\<close>
  (\<^verbatim>\<open>networkDispatchers.ts\<close> is outside this file).  Section 4.1, \<^verbatim>\<open>getOrCreate\<close>: if
  a live node already wraps the object, return it; otherwise build a new node, register
  it, emit a create message, and return it.
\<close>

definition RequestDispatcher_from :: "DispatcherScope \<Rightarrow> Request \<Rightarrow> Dispatcher \<times> DispatcherScope" where
  "RequestDispatcher_from scope request =
     (case existingDispatcher scope (RequestObj (request_id request)) of
        Some result \<Rightarrow> (result, scope)
      | None \<Rightarrow> Dispatcher_new scope (RequestObj (request_id request)) ''Request'' RequestInit)"

definition RequestDispatcher_fromNullable ::
  "DispatcherScope \<Rightarrow> Request option \<Rightarrow> Dispatcher option \<times> DispatcherScope" where
  "RequestDispatcher_fromNullable scope request =
     (case request of
        None \<Rightarrow> (None, scope)
      | Some r \<Rightarrow> (let (d, scope') = RequestDispatcher_from scope r in (Some d, scope')))"

section \<open>FrameDispatcher\<close>

subsection \<open>Construction\<close>

definition FrameDispatcher_new :: "DispatcherScope \<Rightarrow> Frame \<Rightarrow> Dispatcher \<times> DispatcherScope" where
  "FrameDispatcher_new scope frame =
     Dispatcher_new scope (FrameObj (frame_id frame)) ''Frame''
       (FrameInit \<lparr>fi_url = url frame,
                   fi_name = name frame,
                   fi_parentFrame = map_option guid
                     (lookupNullableDispatcher scope
                        (map_option (\<lambda>p. FrameObj (frame_id p)) (parentFrame frame))),
                   fi_loadStates = subtreeLifecycleEvents frame\<rparr>)"

definition FrameDispatcher_from :: "DispatcherScope \<Rightarrow> Frame \<Rightarrow> Dispatcher \<times> DispatcherScope" where
  "FrameDispatcher_from scope frame =
     (case existingDispatcher scope (FrameObj (frame_id frame)) of
        Some result \<Rightarrow> (result, scope)
      | None \<Rightarrow> FrameDispatcher_new scope frame)"

subsection \<open>The handlers subscribed by the constructor\<close>

definition onAddLifecycle :: "Dispatcher \<Rightarrow> string \<Rightarrow> DispatcherScope \<Rightarrow> DispatcherScope" where
  "onAddLifecycle this lifecycleEvent scope =
     dispatchEvent_base this ''loadstate'' (LoadstateAdd lifecycleEvent) scope"

definition onRemoveLifecycle :: "Dispatcher \<Rightarrow> string \<Rightarrow> DispatcherScope \<Rightarrow> DispatcherScope" where
  "onRemoveLifecycle this lifecycleEvent scope =
     dispatchEvent_base this ''loadstate'' (LoadstateRemove lifecycleEvent) scope"

definition onNavigation :: "Dispatcher \<Rightarrow> NavigationEvent \<Rightarrow> DispatcherScope \<Rightarrow> DispatcherScope" where
  "onNavigation this event scope =
     (let params = \<lparr>np_url = ev_url event,
                    np_name = ev_name event,
                    np_error = (case ev_error event of Some e \<Rightarrow> Some (message e) | None \<Rightarrow> None),
                    np_newDocument = None\<rparr>
      in case ev_newDocument event of
           None \<Rightarrow> dispatchEvent_base this ''navigated'' (Navigated params) scope
         | Some doc \<Rightarrow>
             (let (request, scope') = RequestDispatcher_fromNullable scope (di_request doc)
              in dispatchEvent_base this ''navigated''
                   (Navigated (params\<lparr>np_newDocument :=
                      Some \<lparr>nd_request = map_option guid request\<rparr>\<rparr>)) scope'))"

subsection \<open>Result shapes\<close>

record FrameGotoResult =
  response :: "Dispatcher option"

record 'a ElementResult =
  element :: 'a

record ElementsResult =
  result_elements :: "Dispatcher list"

record 'a ValueResult =
  result_value :: 'a

record FrameSelectOptionResult =
  result_values :: "string list"

subsection \<open>Methods\<close>

text \<open>
  Each method takes the frame the dispatcher wraps, as it is when the call is made, the
  params, and the scope; it returns what the promise settles with and the scope after
  the call.  The \<^verbatim>\<open>actionMetadata\<close> constant of a method is the definition named after
  it.
\<close>

definition goto_actionMetadata :: "Frame \<Rightarrow> FrameGotoParams \<Rightarrow> Metadata option \<Rightarrow> ActionMetadata" where
  "goto_actionMetadata frame params metadata =
     (spread metadata)(''type'' \<mapsto> MStr ''goto'', ''value'' \<mapsto> MStr (goto_url params),
                       ''page'' \<mapsto> MPage (page_id (page frame)))"

definition goto_controller :: "Frame \<Rightarrow> FrameGotoParams \<Rightarrow> Metadata option \<Rightarrow> ProgressController" where
  "goto_controller frame params metadata =
     ProgressController_new (navigationTimeout (timeoutSettings (page frame)) params)
       (goto_actionMetadata frame params metadata)"

definition goto ::
  "Frame \<Rightarrow> FrameGotoParams \<Rightarrow> Metadata option \<Rightarrow> DispatcherScope
     \<Rightarrow> (rejection + FrameGotoResult) \<times> DispatcherScope" where
  "goto frame params metadata scope =
     (case Frame_goto frame (goto_controller frame params metadata) (goto_url params) params scope of
        (Inl e, scope') \<Rightarrow> (Inl e, scope')
      | (Inr r, scope') \<Rightarrow>
          (Inr \<lparr>response = lookupNullableDispatcher scope'
                   (map_option (\<lambda>x. ResponseObj (response_id x)) r)\<rparr>, scope'))"

definition frameElement ::
  "Frame \<Rightarrow> DispatcherScope \<Rightarrow> (rejection + Dispatcher ElementResult) \<times> DispatcherScope" where
  "frameElement frame scope =
     (case frame_frameElement (ops frame) of
        Inl e \<Rightarrow> (Inl (Rejected e), scope)
      | Inr h \<Rightarrow> (let (d, scope') = ElementHandleDispatcher_new scope h
                  in (Inr \<lparr>element = d\<rparr>, scope')))"

definition evaluateExpression ::
  "Codec \<Rightarrow> Frame \<Rightarrow> FrameEvaluateExpressionParams \<Rightarrow> DispatcherScope
     \<Rightarrow> (rejection + SerializedValue ValueResult) \<times> DispatcherScope" where
  "evaluateExpression codec frame params scope =
     (case frame_evaluateExpression (ops frame) (expression params) (isFunction params)
             (parseArgument codec (arg params)) of
        Inl e \<Rightarrow> (Inl (Rejected e), scope)
      | Inr v \<Rightarrow> (Inr \<lparr>result_value = serializeResult codec v\<rparr>, scope))"

definition waitForSelector ::
  "Frame \<Rightarrow> SelectorParams \<Rightarrow> DispatcherScope
     \<Rightarrow> (rejection + Dispatcher option ElementResult) \<times> DispatcherScope" where
  "waitForSelector frame params scope =
     (case frame_waitForSelector (ops frame) (selector params) params of
        Inl e \<Rightarrow> (Inl e, scope)
      | Inr h \<Rightarrow> (let (d, scope') = createNullable scope h
                  in (Inr \<lparr>element = d\<rparr>, scope')))"

definition querySelector ::
  "Frame \<Rightarrow> FrameQuerySelectorParams \<Rightarrow> DispatcherScope
     \<Rightarrow> (rejection + Dispatcher option ElementResult) \<times> DispatcherScope" where
  "querySelector frame params scope =
     (case frame_query (ops frame) (qs_selector params) of
        Inl e \<Rightarrow> (Inl (Rejected e), scope)
      | Inr h \<Rightarrow> (let (d, scope') = createNullable scope h
                  in (Inr \<lparr>element = d\<rparr>, scope')))"

text \<open>\<^verbatim>\<open>elements.map(e => new ElementHandleDispatcher(this._scope, e))\<close>, left to right.\<close>

fun wrapAll :: "DispatcherScope \<Rightarrow> ElementHandle list \<Rightarrow> Dispatcher list \<times> DispatcherScope" where
  "wrapAll scope [] = ([], scope)"
| "wrapAll scope (e # es) =
     (let (d, scope') = ElementHandleDispatcher_new scope e;
          (ds, scope'') = wrapAll scope' es
      in (d # ds, scope''))"

definition querySelectorAll ::
  "Frame \<Rightarrow> FrameQuerySelectorParams \<Rightarrow> DispatcherScope
     \<Rightarrow> (rejection + ElementsResult) \<times> DispatcherScope" where
  "querySelectorAll frame params scope =
     (case frame_queryAll (ops frame) (qs_selector params) of
        Inl e \<Rightarrow> (Inl (Rejected e), scope)
      | Inr elements \<Rightarrow> (let (ds, scope') = wrapAll scope elements
                         in (Inr \<lparr>result_elements = ds\<rparr>, scope')))"

definition content ::
  "Frame \<Rightarrow> DispatcherScope \<Rightarrow> (rejection + string ValueResult) \<times> DispatcherScope" where
  "content frame scope =
     (case frame_content (ops frame) of
        Inl e \<Rightarrow> (Inl (Rejected e), scope)
      | Inr v \<Rightarrow> (Inr \<lparr>result_value = v\<rparr>, scope))"

definition setContent_actionMetadata ::
  "Frame \<Rightarrow> FrameSetContentParams \<Rightarrow> Metadata option \<Rightarrow> ActionMetadata" where
  "setContent_actionMetadata frame params metadata =
     (spread metadata)(''type'' \<mapsto> MStr ''setContent'', ''value'' \<mapsto> MStr (html params),
                       ''page'' \<mapsto> MPage (page_id (page frame)))"

definition setContent_controller ::
  "Frame \<Rightarrow> FrameSetContentParams \<Rightarrow> Metadata option \<Rightarrow> ProgressController" where
  "setContent_controller frame params metadata =
     ProgressController_new (navigationTimeout (timeoutSettings (page frame)) params)
       (setContent_actionMetadata frame params metadata)"

definition setContent ::
  "Frame \<Rightarrow> FrameSetContentParams \<Rightarrow> Metadata option \<Rightarrow> DispatcherScope
     \<Rightarrow> (rejection + unit) \<times> DispatcherScope" where
  "setContent frame params metadata scope =
     Frame_setContent frame (setContent_controller frame params metadata) (html params) params scope"

definition addScriptTag ::
  "Frame \<Rightarrow> FrameAddTagParams \<Rightarrow> DispatcherScope
     \<Rightarrow> (rejection + Dispatcher ElementResult) \<times> DispatcherScope" where
  "addScriptTag frame params scope =
     (case frame_addScriptTag (ops frame) params of
        Inl e \<Rightarrow> (Inl (Rejected e), scope)
      | Inr h \<Rightarrow> (let (d, scope') = ElementHandleDispatcher_new scope h
                  in (Inr \<lparr>element = d\<rparr>, scope')))"

definition addStyleTag ::
  "Frame \<Rightarrow> FrameAddTagParams \<Rightarrow> DispatcherScope
     \<Rightarrow> (rejection + Dispatcher ElementResult) \<times> DispatcherScope" where
  "addStyleTag frame params scope =
     (case frame_addStyleTag (ops frame) params of
        Inl e \<Rightarrow> (Inl (Rejected e), scope)
      | Inr h \<Rightarrow> (let (d, scope') = ElementHandleDispatcher_new scope h
                  in (Inr \<lparr>element = d\<rparr>, scope')))"

definition click_actionMetadata :: "Frame \<Rightarrow> SelectorParams \<Rightarrow> Metadata option \<Rightarrow> ActionMetadata" where
  "click_actionMetadata frame params metadata =
     (spread metadata)(''type'' \<mapsto> MStr ''click'', ''target'' \<mapsto> MStr (selector params), ''page'' \<mapsto> MPage (page_id (page frame)))"

definition click ::
  "Frame \<Rightarrow> SelectorParams \<Rightarrow> Metadata option \<Rightarrow> DispatcherScope
     \<Rightarrow> (rejection + unit) \<times> DispatcherScope" where
  "click frame params metadata scope =
     runAbortableTask
       (\<lambda>progress. frame_click (ops frame) progress (selector params) params)
       (timeout (timeoutSettings (page frame)) params)
       (click_actionMetadata frame params metadata) scope"

definition dblclick_actionMetadata :: "Frame \<Rightarrow> SelectorParams \<Rightarrow> Metadata option \<Rightarrow> ActionMetadata" where
  "dblclick_actionMetadata frame params metadata =
     (spread metadata)(''type'' \<mapsto> MStr ''dblclick'', ''target'' \<mapsto> MStr (selector params), ''page'' \<mapsto> MPage (page_id (page frame)))"

definition dblclick ::
  "Frame \<Rightarrow> SelectorParams \<Rightarrow> Metadata option \<Rightarrow> DispatcherScope
     \<Rightarrow> (rejection + unit) \<times> DispatcherScope" where
  "dblclick frame params metadata scope =
     runAbortableTask
       (\<lambda>progress. frame_dblclick (ops frame) progress (selector params) params)
       (timeout (timeoutSettings (page frame)) params)
       (dblclick_actionMetadata frame params metadata) scope"

definition fill_actionMetadata :: "Frame \<Rightarrow> FrameFillParams \<Rightarrow> Metadata option \<Rightarrow> ActionMetadata" where
  "fill_actionMetadata frame params metadata =
     (spread metadata)(''type'' \<mapsto> MStr ''fill'', ''value'' \<mapsto> MStr (fill_value params), ''target'' \<mapsto> MStr (selector params), ''page'' \<mapsto> MPage (page_id (page frame)))"

definition fill ::
  "Frame \<Rightarrow> FrameFillParams \<Rightarrow> Metadata option \<Rightarrow> DispatcherScope
     \<Rightarrow> (rejection + unit) \<times> DispatcherScope" where
  "fill frame params metadata scope =
     runAbortableTask
       (\<lambda>progress. frame_fill (ops frame) progress (selector params) (fill_value params) params)
       (timeout (timeoutSettings (page frame)) params)
       (fill_actionMetadata frame params metadata) scope"

definition textContent ::
  "Frame \<Rightarrow> SelectorParams \<Rightarrow> DispatcherScope
     \<Rightarrow> (rejection + string js ValueResult) \<times> DispatcherScope" where
  "textContent frame params scope =
     (case frame_textContent (ops frame) (selector params) params of
        Inl e \<Rightarrow> (Inl e, scope)
      | Inr v \<Rightarrow> (Inr \<lparr>result_value = (if v = Null then Undefined else v)\<rparr>, scope))"

definition getAttribute ::
  "Frame \<Rightarrow> FrameGetAttributeParams \<Rightarrow> DispatcherScope
     \<Rightarrow> (rejection + string js ValueResult) \<times> DispatcherScope" where
  "getAttribute frame params scope =
     (case frame_getAttribute (ops frame) (selector params) (attr_name params) params of
        Inl e \<Rightarrow> (Inl e, scope)
      | Inr v \<Rightarrow> (Inr \<lparr>result_value = (if v = Null then Undefined else v)\<rparr>, scope))"

definition hover_actionMetadata :: "Frame \<Rightarrow> SelectorParams \<Rightarrow> Metadata option \<Rightarrow> ActionMetadata" where
  "hover_actionMetadata frame params metadata =
     (spread metadata)(''type'' \<mapsto> MStr ''hover'', ''target'' \<mapsto> MStr (selector params), ''page'' \<mapsto> MPage (page_id (page frame)))"

definition hover ::
  "Frame \<Rightarrow> SelectorParams \<Rightarrow> Metadata option \<Rightarrow> DispatcherScope
     \<Rightarrow> (rejection + unit) \<times> DispatcherScope" where
  "hover frame params metadata scope =
     runAbortableTask
       (\<lambda>progress. frame_hover (ops frame) progress (selector params) params)
       (timeout (timeoutSettings (page frame)) params)
       (hover_actionMetadata frame params metadata) scope"

definition selectOption_actionMetadata :: "Frame \<Rightarrow> FrameSelectOptionParams \<Rightarrow> Metadata option \<Rightarrow> ActionMetadata" where
  "selectOption_actionMetadata frame params metadata =
     (spread metadata)(''type'' \<mapsto> MStr ''selectOption'', ''target'' \<mapsto> MStr (selector params), ''page'' \<mapsto> MPage (page_id (page frame)))"

definition selectOption ::
  "Frame \<Rightarrow> FrameSelectOptionParams \<Rightarrow> Metadata option \<Rightarrow> DispatcherScope
     \<Rightarrow> (rejection + FrameSelectOptionResult) \<times> DispatcherScope" where
  "selectOption frame params metadata scope =
     runAbortableTask
       (\<lambda>progress.
          (let elements = map object (case param_elements params of None \<Rightarrow> [] | Some es \<Rightarrow> es);
               (elapsed, r) = frame_selectOption (ops frame) progress (selector params) elements
                                (case param_options params of None \<Rightarrow> [] | Some os \<Rightarrow> os) params
           in (elapsed, case r of Inl e \<Rightarrow> Inl e | Inr vs \<Rightarrow> Inr \<lparr>result_values = vs\<rparr>)))
       (timeout (timeoutSettings (page frame)) params)
       (selectOption_actionMetadata frame params metadata) scope"

definition setInputFiles_actionMetadata :: "Frame \<Rightarrow> FrameSetInputFilesParams \<Rightarrow> Metadata option \<Rightarrow> ActionMetadata" where
  "setInputFiles_actionMetadata frame params metadata =
     (spread metadata)(''type'' \<mapsto> MStr ''setInputFiles'', ''target'' \<mapsto> MStr (selector params), ''page'' \<mapsto> MPage (page_id (page frame)))"

definition setInputFiles ::
  "Frame \<Rightarrow> FrameSetInputFilesParams \<Rightarrow> Metadata option \<Rightarrow> DispatcherScope
     \<Rightarrow> (rejection + unit) \<times> DispatcherScope" where
  "setInputFiles frame params metadata scope =
     runAbortableTask
       (\<lambda>progress. frame_setInputFiles (ops frame) progress (selector params) (files params) params)
       (timeout (timeoutSettings (page frame)) params)
       (setInputFiles_actionMetadata frame params metadata) scope"

definition type_actionMetadata :: "Frame \<Rightarrow> FrameTypeParams \<Rightarrow> Metadata option \<Rightarrow> ActionMetadata" where
  "type_actionMetadata frame params metadata =
     (spread metadata)(''type'' \<mapsto> MStr ''type'', ''value'' \<mapsto> MStr (type_text params), ''target'' \<mapsto> MStr (selector params), ''page'' \<mapsto> MPage (page_id (page frame)))"

definition type ::
  "Frame \<Rightarrow> FrameTypeParams \<Rightarrow> Metadata option \<Rightarrow> DispatcherScope
     \<Rightarrow> (rejection + unit) \<times> DispatcherScope" where
  "type frame params metadata scope =
     runAbortableTask
       (\<lambda>progress. frame_type (ops frame) progress (selector params) (type_text params) params)
       (timeout (timeoutSettings (page frame)) params)
       (type_actionMetadata frame params metadata) scope"

definition press_actionMetadata :: "Frame \<Rightarrow> FramePressParams \<Rightarrow> Metadata option \<Rightarrow> ActionMetadata" where
  "press_actionMetadata frame params metadata =
     (spread metadata)(''type'' \<mapsto> MStr ''press'', ''value'' \<mapsto> MStr (key params), ''target'' \<mapsto> MStr (selector params), ''page'' \<mapsto> MPage (page_id (page frame)))"

definition press ::
  "Frame \<Rightarrow> FramePressParams \<Rightarrow> Metadata option \<Rightarrow> DispatcherScope
     \<Rightarrow> (rejection + unit) \<times> DispatcherScope" where
  "press frame params metadata scope =
     runAbortableTask
       (\<lambda>progress. frame_press (ops frame) progress (selector params) (key params) params)
       (timeout (timeoutSettings (page frame)) params)
       (press_actionMetadata frame params metadata) scope"

definition check_actionMetadata :: "Frame \<Rightarrow> SelectorParams \<Rightarrow> Metadata option \<Rightarrow> ActionMetadata" where
  "check_actionMetadata frame params metadata =
     (spread metadata)(''type'' \<mapsto> MStr ''check'', ''target'' \<mapsto> MStr (selector params), ''page'' \<mapsto> MPage (page_id (page frame)))"

definition check ::
  "Frame \<Rightarrow> SelectorParams \<Rightarrow> Metadata option \<Rightarrow> DispatcherScope
     \<Rightarrow> (rejection + unit) \<times> DispatcherScope" where
  "check frame params metadata scope =
     runAbortableTask
       (\<lambda>progress. frame_check (ops frame) progress (selector params) params)
       (timeout (timeoutSettings (page frame)) params)
       (check_actionMetadata frame params metadata) scope"

definition uncheck_actionMetadata :: "Frame \<Rightarrow> SelectorParams \<Rightarrow> Metadata option \<Rightarrow> ActionMetadata" where
  "uncheck_actionMetadata frame params metadata =
     (spread metadata)(''type'' \<mapsto> MStr ''uncheck'', ''target'' \<mapsto> MStr (selector params), ''page'' \<mapsto> MPage (page_id (page frame)))"

definition uncheck ::
  "Frame \<Rightarrow> SelectorParams \<Rightarrow> Metadata option \<Rightarrow> DispatcherScope
     \<Rightarrow> (rejection + unit) \<times> DispatcherScope" where
  "uncheck frame params metadata scope =
     runAbortableTask
       (\<lambda>progress. frame_uncheck (ops frame) progress (selector params) params)
       (timeout (timeoutSettings (page frame)) params)
       (uncheck_actionMetadata frame params metadata) scope"

definition title ::
  "Frame \<Rightarrow> DispatcherScope \<Rightarrow> (rejection + string ValueResult) \<times> DispatcherScope" where
  "title frame scope =
     (case frame_title (ops frame) of
        Inl e \<Rightarrow> (Inl (Rejected e), scope)
      | Inr v \<Rightarrow> (Inr \<lparr>result_value = v\<rparr>, scope))"

section \<open>Sequences of calls, and what a scope holds\<close>

text \<open>\<^verbatim>\<open>FrameDispatcher.from\<close> called for each frame of a list in turn, on the same scope.\<close>

fun fromAll :: "DispatcherScope \<Rightarrow> Frame list \<Rightarrow> Dispatcher list \<times> DispatcherScope" where
  "fromAll scope [] = ([], scope)"
| "fromAll scope (frame # frames) =
     (let (d, scope') = FrameDispatcher_from scope frame;
          (ds, scope'') = fromAll scope' frames
      in (d # ds, scope''))"

text \<open>The live nodes of a scope that wrap a given object.\<close>

definition wrappers :: "DispatcherScope \<Rightarrow> underlying \<Rightarrow> Dispatcher list" where
  "wrappers scope obj = filter (\<lambda>d. object d = obj) (dispatchers scope)"

section \<open>Sample objects\<close>

text \<open>
  A frame whose element \<^verbatim>\<open>#submit\<close> becomes actionable after 50ms, on a page with the
  default timeouts of 30000ms.
\<close>

definition sampleOps :: FrameOps where
  "sampleOps =
     \<lparr>frame_gotoWork = (\<lambda>c u p. (200, Inr (Some (Response 5)))),
      frame_frameElement = Inr (ElementHandle 7),
      frame_evaluateExpression = (\<lambda>e f a. Inr a),
      frame_waitForSelector = (\<lambda>s p. if s = ''#submit'' then Inr (Some (ElementHandle 1)) else Inr None),
      frame_query = (\<lambda>s. if s = ''#submit'' then Inr (Some (ElementHandle 1)) else Inr None),
      frame_queryAll = (\<lambda>s. Inr [ElementHandle 1, ElementHandle 1]),
      frame_content = Inr ''<html></html>'',
      frame_setContentWork = (\<lambda>c h p. (20, Inr ())),
      frame_addScriptTag = (\<lambda>p. Inr (ElementHandle 2)),
      frame_addStyleTag = (\<lambda>p. Inr (ElementHandle 3)),
      frame_click = (\<lambda>c s p. (50, Inr ())),
      frame_dblclick = (\<lambda>c s p. (50, Inr ())),
      frame_fill = (\<lambda>c s v p. (50, Inr ())),
      frame_textContent = (\<lambda>s p. if s = ''#submit'' then Inr (Val ''Send'') else Inr Null),
      frame_getAttribute = (\<lambda>s n p. if n = ''id'' then Inr (Val ''submit'') else Inr Null),
      frame_hover = (\<lambda>c s p. (50, Inr ())),
      frame_selectOption = (\<lambda>c s es os p. (50, Inr os)),
      frame_setInputFiles = (\<lambda>c s fs p. (50, Inr ())),
      frame_type = (\<lambda>c s t p. (50, Inr ())),
      frame_press = (\<lambda>c s k p. (50, Inr ())),
      frame_check = (\<lambda>c s p. (50, Inr ())),
      frame_uncheck = (\<lambda>c s p. (50, Inr ())),
      frame_title = Inl (Error ''Execution context was destroyed'')\<rparr>"

definition samplePage :: Page where
  "samplePage =
     \<lparr>page_id = 0,
      timeoutSettings = \<lparr>defaultTimeout = 30000, defaultNavigationTimeout = 60000\<rparr>\<rparr>"

definition mainFrame :: Frame where
  "mainFrame = Frame 0 ''about:blank'' ''main'' None [''load''] samplePage sampleOps"

text \<open>The same frame after it has navigated.\<close>

definition mainFrameLater :: Frame where
  "mainFrameLater =
     Frame 0 ''https://example.com/'' ''main'' None [''load'', ''domcontentloaded''] samplePage sampleOps"

definition childFrame :: Frame where
  "childFrame = Frame 1 ''about:blank'' ''child'' (Some mainFrame) [] samplePage sampleOps"

text \<open>The main frame's dispatcher, created in an empty scope, and the scope it leaves.\<close>

definition mainDispatcher :: Dispatcher where
  "mainDispatcher = fst (FrameDispatcher_from emptyScope mainFrame)"

definition mainScope :: DispatcherScope where
  "mainScope = snd (FrameDispatcher_from emptyScope mainFrame)"

text \<open>
  Navigations: a committed cross-document navigation initiated by request 9, one whose
  new document has no initiating request, and a failed navigation.
\<close>

definition committedNavigation :: NavigationEvent where
  "committedNavigation =
     \<lparr>ev_url = ''https://example.com/'', ev_name = Some ''main'', ev_error = None,
      ev_newDocument = Some \<lparr>di_request = Some (Request 9)\<rparr>\<rparr>"

definition requestlessNavigation :: NavigationEvent where
  "requestlessNavigation =
     \<lparr>ev_url = ''about:blank'', ev_name = Some ''main'', ev_error = None,
      ev_newDocument = Some \<lparr>di_request = None\<rparr>\<rparr>"

definition failedNavigation :: NavigationEvent where
  "failedNavigation =
     \<lparr>ev_url = ''https://example.com/'', ev_name = None,
      ev_error = Some (Error ''net::ERR_ABORTED''), ev_newDocument = None\<rparr>"

text \<open>The scope after the committed navigation has been forwarded: request 9 has a node.\<close>

definition navigatedScope :: DispatcherScope where
  "navigatedScope = onNavigation mainDispatcher committedNavigation mainScope"

text \<open>The same frame once it is detached: what needs the document fails.\<close>

definition detachedFrame :: Frame where
  "detachedFrame =
     Frame 0 ''about:blank'' ''main'' None [] samplePage
       (sampleOps\<lparr>frame_content := Inl (Error ''Frame was detached''),
                  frame_title := Inr ''Example'',
                  frame_query := (\<lambda>s. Inl (Error ''Frame was detached'')),
                  frame_evaluateExpression := (\<lambda>e f a. Inl (Error ''Frame was detached''))\<rparr>)"

text \<open>Params of sample calls.\<close>

definition submitQuery :: FrameQuerySelectorParams where
  "submitQuery = \<lparr>qs_selector = ''#submit''\<rparr>"

definition missingQuery :: FrameQuerySelectorParams where
  "missingQuery = \<lparr>qs_selector = ''#missing''\<rparr>"

definition submitParams :: SelectorParams where
  "submitParams = \<lparr>timeout_param = None, selector = ''#submit''\<rparr>"

definition shortSubmitParams :: SelectorParams where
  "shortSubmitParams = \<lparr>timeout_param = Some 10, selector = ''#submit''\<rparr>"

definition missingParams :: SelectorParams where
  "missingParams = \<lparr>timeout_param = None, selector = ''#missing''\<rparr>"

definition tagParams :: FrameAddTagParams where
  "tagParams = \<lparr>tag_url = None, tag_content = Some ''body {}''\<rparr>"

definition sampleCodec :: Codec where
  "sampleCodec =
     \<lparr>parseArgument = (\<lambda>a. case a of SerializedArgument x \<Rightarrow> PageValue x),
      serializeResult = (\<lambda>v. case v of PageValue x \<Rightarrow> SerializedValue x)\<rparr>"

definition evalParams :: FrameEvaluateExpressionParams where
  "evalParams = \<lparr>expression = ''x => x'', isFunction = True, arg = SerializedArgument ''7''\<rparr>"

text \<open>The scope after \<^verbatim>\<open>querySelector('#submit')\<close>: element handle 1 has a node.\<close>

definition queriedScope :: DispatcherScope where
  "queriedScope = snd (querySelector mainFrame submitQuery mainScope)"

definition gotoParams :: FrameGotoParams where
  "gotoParams = \<lparr>timeout_param = None, goto_url = ''https://example.com/''\<rparr>"

definition shortGotoParams :: FrameGotoParams where
  "shortGotoParams = \<lparr>timeout_param = Some 100, goto_url = ''https://example.com/''\<rparr>"

definition contentParams :: FrameSetContentParams where
  "contentParams = \<lparr>timeout_param = None, html = ''<p>hello</p>''\<rparr>"

definition shortContentParams :: FrameSetContentParams where
  "shortContentParams = \<lparr>timeout_param = Some 5, html = ''<p>hello</p>''\<rparr>"

text \<open>Incoming metadata that carries keys of the action metadata besides the stack.\<close>

definition forgedMetadata :: Metadata where
  "forgedMetadata =
     [''stack'' \<mapsto> MStr ''at test.js:1'', ''type'' \<mapsto> MStr ''forged'',
      ''target'' \<mapsto> MStr ''#forged'', ''value'' \<mapsto> MStr ''forged value'']"

definition plainMetadata :: Metadata where
  "plainMetadata = [''stack'' \<mapsto> MStr ''at test.js:1'']"

text \<open>Calls with a 10ms budget on the element that needs 50ms.\<close>

definition shortFillParams :: FrameFillParams where
  "shortFillParams = \<lparr>timeout_param = Some 10, selector = ''#submit'', fill_value = ''hello''\<rparr>"

definition shortTypeParams :: FrameTypeParams where
  "shortTypeParams = \<lparr>timeout_param = Some 10, selector = ''#submit'', type_text = ''hello''\<rparr>"

definition shortPressParams :: FramePressParams where
  "shortPressParams = \<lparr>timeout_param = Some 10, selector = ''#submit'', key = ''Enter''\<rparr>"

definition shortSelectParams :: FrameSelectOptionParams where
  "shortSelectParams =
     \<lparr>timeout_param = Some 10, selector = ''#submit'', param_elements = None,
      param_options = Some [''blue'']\<rparr>"

definition shortFilesParams :: FrameSetInputFilesParams where
  "shortFilesParams = \<lparr>timeout_param = Some 10, selector = ''#submit'', files = [''a.txt'']\<rparr>"

section \<open>Lists and lookups\<close>

lemma find_filter: "find P xs = (case filter P xs of [] \<Rightarrow> None | x # _ \<Rightarrow> Some x)"
  by (induction xs) auto

lemma find_snoc:
  "find P (xs @ [x]) = (case find P xs of Some y \<Rightarrow> Some y | None \<Rightarrow> if P x then Some x else None)"
  by (induction xs) auto

lemma existing_wrappers:
  "existingDispatcher s obj = (case wrappers s obj of [] \<Rightarrow> None | d # _ \<Rightarrow> Some d)"
  unfolding existingDispatcher_def wrappers_def by (rule find_filter)

lemma existing_stable:
  "existingDispatcher s obj = Some d \<Longrightarrow> dispatchers s' = dispatchers s @ xs \<Longrightarrow>
     existingDispatcher s' obj = Some d"
  by (auto simp: existingDispatcher_def find_filter split: list.splits)

lemma ElementHandleDispatcher_new_eq:
  "ElementHandleDispatcher_new scope h =
     (\<lparr>guid = nextGuid scope, dtype = ''ElementHandle'', object = ElementHandleObj (handle_id h),
        initializer = ElementHandleInit\<rparr>,
      scope\<lparr>dispatchers := dispatchers scope @
               [\<lparr>guid = nextGuid scope, dtype = ''ElementHandle'',
                 object = ElementHandleObj (handle_id h), initializer = ElementHandleInit\<rparr>],
             messages := messages scope @ [Create (nextGuid scope) ''ElementHandle'' ElementHandleInit],
             nextGuid := Suc (nextGuid scope)\<rparr>)"
  by (simp add: ElementHandleDispatcher_new_def Dispatcher_new_def Let_def)

section \<open>One node per frame\<close>

lemma from_existing:
  "existingDispatcher s (FrameObj (frame_id f)) = Some d \<Longrightarrow> FrameDispatcher_from s f = (d, s)"
  by (simp add: FrameDispatcher_from_def)

lemma from_fresh:
  assumes "existingDispatcher s (FrameObj (frame_id f)) = None"
  shows "\<exists>d. FrameDispatcher_from s f =
               (d, s\<lparr>dispatchers := dispatchers s @ [d],
                      messages := messages s @ [Create (guid d) ''Frame'' (initializer d)],
                      nextGuid := Suc (nextGuid s)\<rparr>)
            \<and> object d = FrameObj (frame_id f) \<and> guid d = nextGuid s \<and> dtype d = ''Frame''"
  using assms
  by (simp add: FrameDispatcher_from_def FrameDispatcher_new_def Dispatcher_new_def Let_def)

lemma from_then_existing:
  "FrameDispatcher_from s f = (d, s') \<Longrightarrow> existingDispatcher s' (FrameObj (frame_id f)) = Some d"
  by (auto simp: FrameDispatcher_from_def FrameDispatcher_new_def Dispatcher_new_def Let_def
        existingDispatcher_def find_snoc split: option.splits)

lemma from_wrappers:
  "FrameDispatcher_from s f = (d, s') \<Longrightarrow>
     wrappers s' (FrameObj i) =
       (if frame_id f = i \<and> wrappers s (FrameObj i) = [] then [d] else wrappers s (FrameObj i))"
  by (auto simp: FrameDispatcher_from_def FrameDispatcher_new_def Dispatcher_new_def Let_def
        existing_wrappers wrappers_def split: option.splits list.splits)

lemma fromAll_existing:
  "existingDispatcher s (FrameObj i) = Some d \<Longrightarrow> \<forall>f \<in> set fs. frame_id f = i \<Longrightarrow>
     fromAll s fs = (replicate (length fs) d, s)"
  by (induction fs) (auto simp: from_existing)

text \<open>
  Whatever happens to the scope between two calls only adds nodes, so the node a call has
  returned is the node every later call for that frame returns.
\<close>

lemma from_after_growth:
  assumes first: "FrameDispatcher_from s f = (d, s1)"
    and grown: "dispatchers s2 = dispatchers s1 @ xs"
    and same: "frame_id f' = frame_id f"
  shows "FrameDispatcher_from s2 f' = (d, s2)"
proof -
  from from_then_existing [OF first]
  have "existingDispatcher s1 (FrameObj (frame_id f)) = Some d" .
  from existing_stable [OF this grown]
  have "existingDispatcher s2 (FrameObj (frame_id f)) = Some d" .
  with same show ?thesis
    by (simp add: from_existing)
qed

text \<open>
  C4.  Any sequence of \<^verbatim>\<open>FrameDispatcher.from\<close> calls for one underlying frame returns
  the same node every time, the one the first call returned.  Nothing is constructed
  when a live dispatcher already wraps the frame; when none does, exactly one node is
  constructed and one create message emitted, however many calls follow.  A scope that
  holds at most one node for the frame before the calls holds at most one after them.
\<close>

theorem from_same_node:
  assumes same: "\<forall>f \<in> set frames. frame_id f = i"
    and calls: "fromAll scope frames = (ds, scope')"
  shows "(\<forall>d \<in> set ds. d = fst (FrameDispatcher_from scope (hd frames)))
       \<and> (existingDispatcher scope (FrameObj i) \<noteq> None \<longrightarrow> scope' = scope)
       \<and> (existingDispatcher scope (FrameObj i) = None \<and> frames \<noteq> [] \<longrightarrow>
            dispatchers scope' = dispatchers scope @ [hd ds]
          \<and> messages scope' =
              messages scope @ [Create (guid (hd ds)) ''Frame'' (initializer (hd ds))])
       \<and> (length (wrappers scope (FrameObj i)) \<le> 1 \<longrightarrow>
            length (wrappers scope' (FrameObj i)) \<le> 1)"
proof (cases frames)
  case Nil
  with calls show ?thesis by simp
next
  case (Cons f fs)
  obtain d s1 where first: "FrameDispatcher_from scope f = (d, s1)"
    by (cases "FrameDispatcher_from scope f")
  have fid: "frame_id f = i" and rest: "\<forall>g \<in> set fs. frame_id g = i"
    using same Cons by simp_all
  have ex1: "existingDispatcher s1 (FrameObj i) = Some d"
    using from_then_existing [OF first] fid by simp
  have later: "fromAll s1 fs = (replicate (length fs) d, s1)"
    by (rule fromAll_existing [OF ex1 rest])
  have ds: "ds = d # replicate (length fs) d" and s': "scope' = s1"
    using calls Cons first later by simp_all
  have a: "\<forall>x \<in> set ds. x = fst (FrameDispatcher_from scope (hd frames))"
    using ds first Cons by auto
  have b: "existingDispatcher scope (FrameObj i) \<noteq> None \<longrightarrow> scope' = scope"
    using first fid s' by (auto simp: from_existing)
  have c: "existingDispatcher scope (FrameObj i) = None \<and> frames \<noteq> [] \<longrightarrow>
            dispatchers scope' = dispatchers scope @ [hd ds]
          \<and> messages scope' =
              messages scope @ [Create (guid (hd ds)) ''Frame'' (initializer (hd ds))]"
  proof
    assume "existingDispatcher scope (FrameObj i) = None \<and> frames \<noteq> []"
    then have "existingDispatcher scope (FrameObj (frame_id f)) = None"
      using fid by simp
    from from_fresh [OF this] first ds s'
    show "dispatchers scope' = dispatchers scope @ [hd ds]
          \<and> messages scope' =
              messages scope @ [Create (guid (hd ds)) ''Frame'' (initializer (hd ds))]"
      by auto
  qed
  have d: "length (wrappers scope (FrameObj i)) \<le> 1 \<longrightarrow>
            length (wrappers scope' (FrameObj i)) \<le> 1"
    using from_wrappers [OF first, of i] s' by (auto split: if_splits)
  from a b c d show ?thesis by blast
qed

theorem from_same_node_witness:
  "list_all (\<lambda>f. frame_id f = 0) [mainFrame, mainFrameLater, mainFrame]
   \<and> list_all (\<lambda>d. d = fst (FrameDispatcher_from emptyScope (hd [mainFrame, mainFrameLater, mainFrame])))
        (fst (fromAll emptyScope [mainFrame, mainFrameLater, mainFrame]))
   \<and> existingDispatcher emptyScope (FrameObj 0) = None
   \<and> dispatchers (snd (fromAll emptyScope [mainFrame, mainFrameLater, mainFrame]))
       = dispatchers emptyScope @ [hd (fst (fromAll emptyScope [mainFrame, mainFrameLater, mainFrame]))]
   \<and> length (wrappers emptyScope (FrameObj 0)) \<le> 1
   \<and> length (wrappers (snd (fromAll emptyScope [mainFrame, mainFrameLater, mainFrame])) (FrameObj 0)) \<le> 1
   \<and> existingDispatcher (snd (FrameDispatcher_from emptyScope mainFrame)) (FrameObj 0) \<noteq> None
   \<and> snd (fromAll (snd (FrameDispatcher_from emptyScope mainFrame)) [mainFrameLater, mainFrame])
       = snd (FrameDispatcher_from emptyScope mainFrame)"
proof -
  have same: "\<forall>f \<in> set [mainFrame, mainFrameLater, mainFrame]. frame_id f = 0"
    by (simp add: mainFrame_def mainFrameLater_def)
  have same': "\<forall>f \<in> set [mainFrameLater, mainFrame]. frame_id f = 0"
    by (simp add: mainFrame_def mainFrameLater_def)
  have ne: "[mainFrame, mainFrameLater, mainFrame] \<noteq> []"
    by simp
  have e0: "existingDispatcher emptyScope (FrameObj 0) = None"
    by (simp add: existingDispatcher_def emptyScope_def)
  have w0: "length (wrappers emptyScope (FrameObj 0)) \<le> 1"
    by (simp add: wrappers_def emptyScope_def)
  have e1: "existingDispatcher (snd (FrameDispatcher_from emptyScope mainFrame)) (FrameObj 0) \<noteq> None"
    by (simp add: FrameDispatcher_from_def FrameDispatcher_new_def Dispatcher_new_def Let_def
          existingDispatcher_def lookupNullableDispatcher_def emptyScope_def mainFrame_def)
  note first = from_same_node [OF same surjective_pairing, of emptyScope]
  note second = from_same_node [OF same' surjective_pairing,
      of "snd (FrameDispatcher_from emptyScope mainFrame)"]
  show ?thesis
    unfolding list_all_iff using same ne e0 w0 e1 first second by blast
qed

section \<open>Sample scopes, evaluated\<close>

lemma mainScope_eq:
  "mainScope = \<lparr>dispatchers = [mainDispatcher],
      messages = [Create 0 ''Frame'' (FrameInit \<lparr>fi_url = ''about:blank'', fi_name = ''main'',
             fi_parentFrame = None, fi_loadStates = [''load'']\<rparr>)],
      nextGuid = 1, reports = []\<rparr>"
  by (simp add: mainScope_def mainDispatcher_def FrameDispatcher_from_def FrameDispatcher_new_def
        Dispatcher_new_def Let_def existingDispatcher_def lookupNullableDispatcher_def
        emptyScope_def mainFrame_def)

lemma mainDispatcher_eq:
  "mainDispatcher = \<lparr>guid = 0, dtype = ''Frame'', object = FrameObj 0,
        initializer = FrameInit \<lparr>fi_url = ''about:blank'', fi_name = ''main'',
              fi_parentFrame = None, fi_loadStates = [''load'']\<rparr>\<rparr>"
  by (simp add: mainDispatcher_def FrameDispatcher_from_def FrameDispatcher_new_def
        Dispatcher_new_def Let_def existingDispatcher_def lookupNullableDispatcher_def
        emptyScope_def mainFrame_def)

lemma navigatedScope_existing:
  "existingDispatcher navigatedScope (RequestObj 9) =
     Some \<lparr>guid = 1, dtype = ''Request'', object = RequestObj 9, initializer = RequestInit\<rparr>"
  by (simp add: navigatedScope_def onNavigation_def RequestDispatcher_fromNullable_def
        RequestDispatcher_from_def Dispatcher_new_def dispatchEvent_base_def Let_def
        existingDispatcher_def committedNavigation_def mainScope_eq mainDispatcher_eq)

lemma queriedScope_eq:
  "queriedScope =
     \<lparr>dispatchers = [mainDispatcher,
        \<lparr>guid = 1, dtype = ''ElementHandle'', object = ElementHandleObj 1,
          initializer = ElementHandleInit\<rparr>],
      messages = [Create 0 ''Frame'' (FrameInit \<lparr>fi_url = ''about:blank'', fi_name = ''main'',
             fi_parentFrame = None, fi_loadStates = [''load'']\<rparr>),
           Create 1 ''ElementHandle'' ElementHandleInit],
      nextGuid = 2, reports = []\<rparr>"
  by (simp add: queriedScope_def querySelector_def createNullable_def ElementHandleDispatcher_new_eq
        mainFrame_def sampleOps_def submitQuery_def mainScope_eq)

section \<open>What the navigation handler does\<close>

lemma onNavigation_cases:
  "(ev_newDocument event = None \<longrightarrow>
      onNavigation this event scope =
        scope\<lparr>messages := messages scope @
          [Event (guid this) ''navigated''
             (Navigated \<lparr>np_url = ev_url event, np_name = ev_name event,
                          np_error = map_option message (ev_error event),
                          np_newDocument = None\<rparr>)]\<rparr>)
   \<and> (ev_newDocument event = Some doc \<and> di_request doc = None \<longrightarrow>
      onNavigation this event scope =
        scope\<lparr>messages := messages scope @
          [Event (guid this) ''navigated''
             (Navigated \<lparr>np_url = ev_url event, np_name = ev_name event,
                          np_error = map_option message (ev_error event),
                          np_newDocument = Some \<lparr>nd_request = None\<rparr>\<rparr>)]\<rparr>)
   \<and> (ev_newDocument event = Some doc \<and> di_request doc = Some r
        \<and> existingDispatcher scope (RequestObj (request_id r)) = Some d \<longrightarrow>
      onNavigation this event scope =
        scope\<lparr>messages := messages scope @
          [Event (guid this) ''navigated''
             (Navigated \<lparr>np_url = ev_url event, np_name = ev_name event,
                          np_error = map_option message (ev_error event),
                          np_newDocument = Some \<lparr>nd_request = Some (guid d)\<rparr>\<rparr>)]\<rparr>)
   \<and> (ev_newDocument event = Some doc \<and> di_request doc = Some r
        \<and> existingDispatcher scope (RequestObj (request_id r)) = None \<longrightarrow>
      onNavigation this event scope =
        scope\<lparr>dispatchers := dispatchers scope @
                 [\<lparr>guid = nextGuid scope, dtype = ''Request'',
                   object = RequestObj (request_id r), initializer = RequestInit\<rparr>],
               messages := messages scope @
                 [Create (nextGuid scope) ''Request'' RequestInit,
                  Event (guid this) ''navigated''
                    (Navigated \<lparr>np_url = ev_url event, np_name = ev_name event,
                                 np_error = map_option message (ev_error event),
                                 np_newDocument = Some \<lparr>nd_request = Some (nextGuid scope)\<rparr>\<rparr>)],
               nextGuid := Suc (nextGuid scope)\<rparr>)"
  by (simp add: onNavigation_def RequestDispatcher_fromNullable_def RequestDispatcher_from_def
        Dispatcher_new_def dispatchEvent_base_def Let_def option.map_sel split: option.splits)

section \<open>The navigated event\<close>

text \<open>
  C1, as the code has it.  Every Navigation notification is forwarded as one
  \<^verbatim>\<open>navigated\<close> event, the last message of the scope, whose params hold the
  notification's url, its optional name, and the error's message when there is an error.
  When the notification carries a new document the params hold a \<^verbatim>\<open>newDocument\<close>
  entry.  Its \<^verbatim>\<open>request\<close> is absent when the document has no initiating request;
  otherwise it is the node of that network request: the existing node when one wraps the
  request, and else a node of kind Request created, registered and announced by a create
  message before the event.
\<close>

theorem navigated_event:
  "(ev_newDocument event = None \<longrightarrow>
      onNavigation this event scope =
        scope\<lparr>messages := messages scope @
          [Event (guid this) ''navigated''
             (Navigated \<lparr>np_url = ev_url event, np_name = ev_name event,
                          np_error = map_option message (ev_error event),
                          np_newDocument = None\<rparr>)]\<rparr>)
   \<and> (ev_newDocument event = Some doc \<and> di_request doc = None \<longrightarrow>
      onNavigation this event scope =
        scope\<lparr>messages := messages scope @
          [Event (guid this) ''navigated''
             (Navigated \<lparr>np_url = ev_url event, np_name = ev_name event,
                          np_error = map_option message (ev_error event),
                          np_newDocument = Some \<lparr>nd_request = None\<rparr>\<rparr>)]\<rparr>)
   \<and> (ev_newDocument event = Some doc \<and> di_request doc = Some r
        \<and> existingDispatcher scope (RequestObj (request_id r)) = Some d \<longrightarrow>
      onNavigation this event scope =
        scope\<lparr>messages := messages scope @
          [Event (guid this) ''navigated''
             (Navigated \<lparr>np_url = ev_url event, np_name = ev_name event,
                          np_error = map_option message (ev_error event),
                          np_newDocument = Some \<lparr>nd_request = Some (guid d)\<rparr>\<rparr>)]\<rparr>)
   \<and> (ev_newDocument event = Some doc \<and> di_request doc = Some r
        \<and> existingDispatcher scope (RequestObj (request_id r)) = None \<longrightarrow>
      onNavigation this event scope =
        scope\<lparr>dispatchers := dispatchers scope @
                 [\<lparr>guid = nextGuid scope, dtype = ''Request'',
                   object = RequestObj (request_id r), initializer = RequestInit\<rparr>],
               messages := messages scope @
                 [Create (nextGuid scope) ''Request'' RequestInit,
                  Event (guid this) ''navigated''
                    (Navigated \<lparr>np_url = ev_url event, np_name = ev_name event,
                                 np_error = map_option message (ev_error event),
                                 np_newDocument = Some \<lparr>nd_request = Some (nextGuid scope)\<rparr>\<rparr>)],
               nextGuid := Suc (nextGuid scope)\<rparr>)"
  by (rule onNavigation_cases)

theorem navigated_event_witness:
  "ev_newDocument failedNavigation = None
   \<and> onNavigation mainDispatcher failedNavigation mainScope =
        mainScope\<lparr>messages := messages mainScope @
          [Event (guid mainDispatcher) ''navigated''
             (Navigated \<lparr>np_url = ev_url failedNavigation, np_name = ev_name failedNavigation,
                          np_error = map_option message (ev_error failedNavigation),
                          np_newDocument = None\<rparr>)]\<rparr>
   \<and> map_option message (ev_error failedNavigation) = Some ''net::ERR_ABORTED''
   \<and> ev_newDocument requestlessNavigation = Some \<lparr>di_request = None\<rparr>
   \<and> onNavigation mainDispatcher requestlessNavigation mainScope =
        mainScope\<lparr>messages := messages mainScope @
          [Event (guid mainDispatcher) ''navigated''
             (Navigated \<lparr>np_url = ev_url requestlessNavigation, np_name = ev_name requestlessNavigation,
                          np_error = map_option message (ev_error requestlessNavigation),
                          np_newDocument = Some \<lparr>nd_request = None\<rparr>\<rparr>)]\<rparr>
   \<and> ev_newDocument committedNavigation = Some \<lparr>di_request = Some (Request 9)\<rparr>
   \<and> existingDispatcher mainScope (RequestObj (request_id (Request 9))) = None
   \<and> onNavigation mainDispatcher committedNavigation mainScope =
        mainScope\<lparr>dispatchers := dispatchers mainScope @
                 [\<lparr>guid = nextGuid mainScope, dtype = ''Request'',
                   object = RequestObj (request_id (Request 9)), initializer = RequestInit\<rparr>],
               messages := messages mainScope @
                 [Create (nextGuid mainScope) ''Request'' RequestInit,
                  Event (guid mainDispatcher) ''navigated''
                    (Navigated \<lparr>np_url = ev_url committedNavigation, np_name = ev_name committedNavigation,
                                 np_error = map_option message (ev_error committedNavigation),
                                 np_newDocument = Some \<lparr>nd_request = Some (nextGuid mainScope)\<rparr>\<rparr>)],
               nextGuid := Suc (nextGuid mainScope)\<rparr>
   \<and> existingDispatcher navigatedScope (RequestObj (request_id (Request 9))) =
        Some \<lparr>guid = 1, dtype = ''Request'', object = RequestObj 9, initializer = RequestInit\<rparr>
   \<and> onNavigation mainDispatcher committedNavigation navigatedScope =
        navigatedScope\<lparr>messages := messages navigatedScope @
          [Event (guid mainDispatcher) ''navigated''
             (Navigated \<lparr>np_url = ev_url committedNavigation, np_name = ev_name committedNavigation,
                          np_error = map_option message (ev_error committedNavigation),
                          np_newDocument = Some \<lparr>nd_request = Some (guid
                            \<lparr>guid = 1, dtype = ''Request'', object = RequestObj 9,
                              initializer = RequestInit\<rparr>)\<rparr>\<rparr>)]\<rparr>"
proof -
  have a: "ev_newDocument failedNavigation = None"
    and a': "map_option message (ev_error failedNavigation) = Some ''net::ERR_ABORTED''"
    by (simp_all add: failedNavigation_def)
  have b: "ev_newDocument requestlessNavigation = Some \<lparr>di_request = None\<rparr>"
    and b': "di_request \<lparr>di_request = None\<rparr> = None"
    by (simp_all add: requestlessNavigation_def)
  have c: "ev_newDocument committedNavigation = Some \<lparr>di_request = Some (Request 9)\<rparr>"
    and c': "di_request \<lparr>di_request = Some (Request 9)\<rparr> = Some (Request 9)"
    by (simp_all add: committedNavigation_def)
  have d: "existingDispatcher mainScope (RequestObj (request_id (Request 9))) = None"
    by (simp add: existingDispatcher_def mainScope_eq mainDispatcher_eq)
  have e: "existingDispatcher navigatedScope (RequestObj (request_id (Request 9))) =
        Some \<lparr>guid = 1, dtype = ''Request'', object = RequestObj 9, initializer = RequestInit\<rparr>"
    using navigatedScope_existing by simp
  note n1 = navigated_event [where event = failedNavigation and this = mainDispatcher
      and scope = mainScope]
  note n2 = navigated_event [where event = requestlessNavigation and this = mainDispatcher
      and scope = mainScope and doc = "\<lparr>di_request = None\<rparr>"]
  note n3 = navigated_event [where event = committedNavigation and this = mainDispatcher
      and scope = mainScope and doc = "\<lparr>di_request = Some (Request 9)\<rparr>" and r = "Request 9"]
  note n4 = navigated_event [where event = committedNavigation and this = mainDispatcher
      and scope = navigatedScope and doc = "\<lparr>di_request = Some (Request 9)\<rparr>" and r = "Request 9"
      and d = "\<lparr>guid = 1, dtype = ''Request'', object = RequestObj 9, initializer = RequestInit\<rparr>"]
  show ?thesis
    using a a' b b' c c' d e n1 n2 n3 n4 by blast
qed

text \<open>
  C1 as it is stated does not hold for a navigation whose new document has no initiating
  request: the event carries the \<^verbatim>\<open>newDocument\<close> entry with no reference in it, and
  no node is created.
\<close>

theorem navigated_without_reference:
  "ev_newDocument requestlessNavigation = Some \<lparr>di_request = None\<rparr>
   \<and> messages (onNavigation mainDispatcher requestlessNavigation mainScope) =
       messages mainScope @
         [Event 0 ''navigated''
            (Navigated \<lparr>np_url = ''about:blank'', np_name = Some ''main'', np_error = None,
                         np_newDocument = Some \<lparr>nd_request = None\<rparr>\<rparr>)]
   \<and> dispatchers (onNavigation mainDispatcher requestlessNavigation mainScope) = dispatchers mainScope"
  by (simp add: onNavigation_def RequestDispatcher_fromNullable_def dispatchEvent_base_def
        requestlessNavigation_def mainDispatcher_eq)

section \<open>Absent values\<close>

text \<open>
  C3.  When the underlying frame answers \<^verbatim>\<open>getAttribute\<close> or \<^verbatim>\<open>textContent\<close> with
  null, the result's value field is absent (undefined); when it answers with a string,
  the value field holds exactly that string; the value field of a result is never a
  present null.
\<close>

theorem getAttribute_absent:
  "(frame_getAttribute (ops frame) (selector params) (attr_name params) params = Inr Null \<longrightarrow>
      getAttribute frame params scope = (Inr \<lparr>result_value = Undefined\<rparr>, scope))
   \<and> (frame_getAttribute (ops frame) (selector params) (attr_name params) params = Inr (Val v) \<longrightarrow>
      getAttribute frame params scope = (Inr \<lparr>result_value = Val v\<rparr>, scope))
   \<and> (fst (getAttribute frame params scope) = Inr r \<longrightarrow> result_value r \<noteq> Null)
   \<and> (frame_textContent (ops frame) (selector params') params' = Inr Null \<longrightarrow>
      textContent frame params' scope = (Inr \<lparr>result_value = Undefined\<rparr>, scope))
   \<and> (frame_textContent (ops frame) (selector params') params' = Inr (Val v) \<longrightarrow>
      textContent frame params' scope = (Inr \<lparr>result_value = Val v\<rparr>, scope))
   \<and> (fst (textContent frame params' scope) = Inr r \<longrightarrow> result_value r \<noteq> Null)"
  by (auto simp: getAttribute_def textContent_def split: sum.splits)

theorem getAttribute_absent_witness:
  "frame_getAttribute (ops mainFrame) ''#submit'' ''href'' 
      \<lparr>timeout_param = None, selector = ''#submit'', attr_name = ''href''\<rparr> = Inr Null
   \<and> getAttribute mainFrame \<lparr>timeout_param = None, selector = ''#submit'', attr_name = ''href''\<rparr> mainScope
        = (Inr \<lparr>result_value = Undefined\<rparr>, mainScope)
   \<and> frame_getAttribute (ops mainFrame) ''#submit'' ''id'' 
      \<lparr>timeout_param = None, selector = ''#submit'', attr_name = ''id''\<rparr> = Inr (Val ''submit'')
   \<and> getAttribute mainFrame \<lparr>timeout_param = None, selector = ''#submit'', attr_name = ''id''\<rparr> mainScope
        = (Inr \<lparr>result_value = Val ''submit''\<rparr>, mainScope)
   \<and> frame_textContent (ops mainFrame) ''#missing'' \<lparr>timeout_param = None, selector = ''#missing''\<rparr> = Inr Null
   \<and> textContent mainFrame \<lparr>timeout_param = None, selector = ''#missing''\<rparr> mainScope
        = (Inr \<lparr>result_value = Undefined\<rparr>, mainScope)
   \<and> frame_textContent (ops mainFrame) ''#submit'' \<lparr>timeout_param = None, selector = ''#submit''\<rparr> = Inr (Val ''Send'')
   \<and> textContent mainFrame \<lparr>timeout_param = None, selector = ''#submit''\<rparr> mainScope
        = (Inr \<lparr>result_value = Val ''Send''\<rparr>, mainScope)"
proof -
  have a: "frame_getAttribute (ops mainFrame) ''#submit'' ''href'' 
      \<lparr>timeout_param = None, selector = ''#submit'', attr_name = ''href''\<rparr> = Inr Null"
    by (simp add: mainFrame_def sampleOps_def)
  have b: "frame_getAttribute (ops mainFrame) ''#submit'' ''id'' 
      \<lparr>timeout_param = None, selector = ''#submit'', attr_name = ''id''\<rparr> = Inr (Val ''submit'')"
    by (simp add: mainFrame_def sampleOps_def)
  have c: "frame_textContent (ops mainFrame) ''#missing'' \<lparr>timeout_param = None, selector = ''#missing''\<rparr> = Inr Null"
    by (simp add: mainFrame_def sampleOps_def)
  have d: "frame_textContent (ops mainFrame) ''#submit'' \<lparr>timeout_param = None, selector = ''#submit''\<rparr> = Inr (Val ''Send'')"
    by (simp add: mainFrame_def sampleOps_def)
  show ?thesis
    using a b c d
      getAttribute_absent [where frame = mainFrame and scope = mainScope
        and params = "\<lparr>timeout_param = None, selector = ''#submit'', attr_name = ''href''\<rparr>"
        and params' = "\<lparr>timeout_param = None, selector = ''#missing''\<rparr>"]
      getAttribute_absent [where frame = mainFrame and scope = mainScope and v = "''submit''"
        and params = "\<lparr>timeout_param = None, selector = ''#submit'', attr_name = ''id''\<rparr>"]
      getAttribute_absent [where frame = mainFrame and scope = mainScope and v = "''Send''"
        and params' = "\<lparr>timeout_param = None, selector = ''#submit''\<rparr>"]
    by simp
qed

section \<open>Handles returned by a method\<close>

text \<open>
  C7.  When \<^verbatim>\<open>querySelector\<close>, \<^verbatim>\<open>waitForSelector\<close> or \<^verbatim>\<open>frameElement\<close> succeeds with
  a handle, the result holds a dispatcher node that wraps the handle, and when the method
  returns the node is registered in the scope and announced by a create message.  When
  \<^verbatim>\<open>querySelector\<close> or \<^verbatim>\<open>waitForSelector\<close> resolves to no element, the element field
  is absent and the scope is left as it was.
\<close>

theorem handles_registered:
  "(frame_query (ops frame) (qs_selector params) = Inr (Some h) \<longrightarrow>
      (\<exists>d. querySelector frame params scope =
              (Inr \<lparr>element = Some d\<rparr>,
               scope\<lparr>dispatchers := dispatchers scope @ [d],
                      messages := messages scope @ [Create (guid d) ''ElementHandle'' ElementHandleInit],
                      nextGuid := Suc (nextGuid scope)\<rparr>)
          \<and> object d = ElementHandleObj (handle_id h) \<and> dtype d = ''ElementHandle''))
   \<and> (frame_query (ops frame) (qs_selector params) = Inr None \<longrightarrow>
      querySelector frame params scope = (Inr \<lparr>element = None\<rparr>, scope))
   \<and> (frame_waitForSelector (ops frame) (selector wparams) wparams = Inr (Some h) \<longrightarrow>
      (\<exists>d. waitForSelector frame wparams scope =
              (Inr \<lparr>element = Some d\<rparr>,
               scope\<lparr>dispatchers := dispatchers scope @ [d],
                      messages := messages scope @ [Create (guid d) ''ElementHandle'' ElementHandleInit],
                      nextGuid := Suc (nextGuid scope)\<rparr>)
          \<and> object d = ElementHandleObj (handle_id h) \<and> dtype d = ''ElementHandle''))
   \<and> (frame_waitForSelector (ops frame) (selector wparams) wparams = Inr None \<longrightarrow>
      waitForSelector frame wparams scope = (Inr \<lparr>element = None\<rparr>, scope))
   \<and> (frame_frameElement (ops frame) = Inr h \<longrightarrow>
      (\<exists>d. frameElement frame scope =
              (Inr \<lparr>element = d\<rparr>,
               scope\<lparr>dispatchers := dispatchers scope @ [d],
                      messages := messages scope @ [Create (guid d) ''ElementHandle'' ElementHandleInit],
                      nextGuid := Suc (nextGuid scope)\<rparr>)
          \<and> object d = ElementHandleObj (handle_id h) \<and> dtype d = ''ElementHandle''))"
  by (simp add: querySelector_def waitForSelector_def frameElement_def createNullable_def
        ElementHandleDispatcher_new_eq)

theorem handles_registered_witness:
  "frame_query (ops mainFrame) (qs_selector submitQuery) = Inr (Some (ElementHandle 1))
   \<and> (\<exists>d. querySelector mainFrame submitQuery mainScope =
              (Inr \<lparr>element = Some d\<rparr>,
               mainScope\<lparr>dispatchers := dispatchers mainScope @ [d],
                      messages := messages mainScope @ [Create (guid d) ''ElementHandle'' ElementHandleInit],
                      nextGuid := Suc (nextGuid mainScope)\<rparr>)
          \<and> object d = ElementHandleObj (handle_id (ElementHandle 1)) \<and> dtype d = ''ElementHandle'')
   \<and> frame_query (ops mainFrame) (qs_selector missingQuery) = Inr None
   \<and> querySelector mainFrame missingQuery mainScope = (Inr \<lparr>element = None\<rparr>, mainScope)
   \<and> frame_waitForSelector (ops mainFrame) (selector submitParams) submitParams = Inr (Some (ElementHandle 1))
   \<and> (\<exists>d. waitForSelector mainFrame submitParams mainScope =
              (Inr \<lparr>element = Some d\<rparr>,
               mainScope\<lparr>dispatchers := dispatchers mainScope @ [d],
                      messages := messages mainScope @ [Create (guid d) ''ElementHandle'' ElementHandleInit],
                      nextGuid := Suc (nextGuid mainScope)\<rparr>)
          \<and> object d = ElementHandleObj (handle_id (ElementHandle 1)) \<and> dtype d = ''ElementHandle'')
   \<and> frame_waitForSelector (ops mainFrame) (selector missingParams) missingParams = Inr None
   \<and> waitForSelector mainFrame missingParams mainScope = (Inr \<lparr>element = None\<rparr>, mainScope)
   \<and> frame_frameElement (ops mainFrame) = Inr (ElementHandle 7)
   \<and> (\<exists>d. frameElement mainFrame mainScope =
              (Inr \<lparr>element = d\<rparr>,
               mainScope\<lparr>dispatchers := dispatchers mainScope @ [d],
                      messages := messages mainScope @ [Create (guid d) ''ElementHandle'' ElementHandleInit],
                      nextGuid := Suc (nextGuid mainScope)\<rparr>)
          \<and> object d = ElementHandleObj (handle_id (ElementHandle 7)) \<and> dtype d = ''ElementHandle'')"
proof -
  have a: "frame_query (ops mainFrame) (qs_selector submitQuery) = Inr (Some (ElementHandle 1))"
    and b: "frame_query (ops mainFrame) (qs_selector missingQuery) = Inr None"
    and c: "frame_waitForSelector (ops mainFrame) (selector submitParams) submitParams = Inr (Some (ElementHandle 1))"
    and d: "frame_waitForSelector (ops mainFrame) (selector missingParams) missingParams = Inr None"
    and e: "frame_frameElement (ops mainFrame) = Inr (ElementHandle 7)"
    by (simp_all add: mainFrame_def sampleOps_def submitQuery_def missingQuery_def submitParams_def
          missingParams_def)
  note found = handles_registered [where frame = mainFrame and scope = mainScope
      and params = submitQuery and wparams = submitParams and h = "ElementHandle 1"]
  note missing = handles_registered [where frame = mainFrame and scope = mainScope
      and params = missingQuery and wparams = missingParams]
  note owner = handles_registered [where frame = mainFrame and scope = mainScope
      and h = "ElementHandle 7"]
  show ?thesis
    using a b c d e found missing owner by blast
qed

section \<open>Methods that run no action\<close>

text \<open>
  C6.  \<^verbatim>\<open>content\<close>, \<^verbatim>\<open>title\<close>, \<^verbatim>\<open>querySelector\<close> and \<^verbatim>\<open>evaluateExpression\<close> hand
  nothing to the action runner: the reports of the instrumentation sink are what they
  were, no outcome is a timeout, and a failure of the underlying frame operation is what
  the caller gets, unchanged.
\<close>

theorem fast_methods_unwrapped:
  "(frame_content (ops frame) = Inl e \<longrightarrow> content frame scope = (Inl (Rejected e), scope))
   \<and> (frame_content (ops frame) = Inr v \<longrightarrow> content frame scope = (Inr \<lparr>result_value = v\<rparr>, scope))
   \<and> fst (content frame scope) \<noteq> Inl (TimeoutError m)
   \<and> reports (snd (content frame scope)) = reports scope
   \<and> (frame_title (ops frame) = Inl e \<longrightarrow> title frame scope = (Inl (Rejected e), scope))
   \<and> (frame_title (ops frame) = Inr v \<longrightarrow> title frame scope = (Inr \<lparr>result_value = v\<rparr>, scope))
   \<and> fst (title frame scope) \<noteq> Inl (TimeoutError m)
   \<and> reports (snd (title frame scope)) = reports scope
   \<and> (frame_query (ops frame) (qs_selector qparams) = Inl e \<longrightarrow>
        querySelector frame qparams scope = (Inl (Rejected e), scope))
   \<and> fst (querySelector frame qparams scope) \<noteq> Inl (TimeoutError m)
   \<and> reports (snd (querySelector frame qparams scope)) = reports scope
   \<and> (frame_evaluateExpression (ops frame) (expression eparams) (isFunction eparams)
          (parseArgument codec (arg eparams)) = Inl e \<longrightarrow>
        evaluateExpression codec frame eparams scope = (Inl (Rejected e), scope))
   \<and> (frame_evaluateExpression (ops frame) (expression eparams) (isFunction eparams)
          (parseArgument codec (arg eparams)) = Inr pv \<longrightarrow>
        evaluateExpression codec frame eparams scope =
          (Inr \<lparr>result_value = serializeResult codec pv\<rparr>, scope))
   \<and> fst (evaluateExpression codec frame eparams scope) \<noteq> Inl (TimeoutError m)
   \<and> reports (snd (evaluateExpression codec frame eparams scope)) = reports scope"
  by (simp add: content_def title_def querySelector_def evaluateExpression_def createNullable_def
        ElementHandleDispatcher_new_eq split: sum.splits option.splits)

theorem fast_methods_unwrapped_witness:
  "frame_content (ops detachedFrame) = Inl (Error ''Frame was detached'')
   \<and> content detachedFrame mainScope = (Inl (Rejected (Error ''Frame was detached'')), mainScope)
   \<and> frame_content (ops mainFrame) = Inr ''<html></html>''
   \<and> content mainFrame mainScope = (Inr \<lparr>result_value = ''<html></html>''\<rparr>, mainScope)
   \<and> frame_title (ops mainFrame) = Inl (Error ''Execution context was destroyed'')
   \<and> title mainFrame mainScope = (Inl (Rejected (Error ''Execution context was destroyed'')), mainScope)
   \<and> frame_title (ops detachedFrame) = Inr ''Example''
   \<and> title detachedFrame mainScope = (Inr \<lparr>result_value = ''Example''\<rparr>, mainScope)
   \<and> frame_query (ops detachedFrame) (qs_selector submitQuery) = Inl (Error ''Frame was detached'')
   \<and> querySelector detachedFrame submitQuery mainScope =
        (Inl (Rejected (Error ''Frame was detached'')), mainScope)
   \<and> frame_evaluateExpression (ops detachedFrame) (expression evalParams) (isFunction evalParams)
          (parseArgument sampleCodec (arg evalParams)) = Inl (Error ''Frame was detached'')
   \<and> evaluateExpression sampleCodec detachedFrame evalParams mainScope =
        (Inl (Rejected (Error ''Frame was detached'')), mainScope)
   \<and> frame_evaluateExpression (ops mainFrame) (expression evalParams) (isFunction evalParams)
          (parseArgument sampleCodec (arg evalParams)) = Inr (PageValue ''7'')
   \<and> evaluateExpression sampleCodec mainFrame evalParams mainScope =
        (Inr \<lparr>result_value = serializeResult sampleCodec (PageValue ''7'')\<rparr>, mainScope)"
proof -
  have a: "frame_content (ops detachedFrame) = Inl (Error ''Frame was detached'')"
    and b: "frame_content (ops mainFrame) = Inr ''<html></html>''"
    and c: "frame_title (ops mainFrame) = Inl (Error ''Execution context was destroyed'')"
    and d: "frame_title (ops detachedFrame) = Inr ''Example''"
    and e: "frame_query (ops detachedFrame) (qs_selector submitQuery) = Inl (Error ''Frame was detached'')"
    and f: "frame_evaluateExpression (ops detachedFrame) (expression evalParams) (isFunction evalParams)
          (parseArgument sampleCodec (arg evalParams)) = Inl (Error ''Frame was detached'')"
    and g: "frame_evaluateExpression (ops mainFrame) (expression evalParams) (isFunction evalParams)
          (parseArgument sampleCodec (arg evalParams)) = Inr (PageValue ''7'')"
    by (simp_all add: mainFrame_def detachedFrame_def sampleOps_def submitQuery_def evalParams_def
          sampleCodec_def)
  note failing = fast_methods_unwrapped [where frame = detachedFrame and scope = mainScope
      and e = "Error ''Frame was detached''" and v = "''Example''" and qparams = submitQuery
      and eparams = evalParams and codec = sampleCodec]
  note working = fast_methods_unwrapped [where frame = mainFrame and scope = mainScope
      and e = "Error ''Execution context was destroyed''" and v = "''<html></html>''"
      and eparams = evalParams and codec = sampleCodec and pv = "PageValue ''7''"]
  show ?thesis
    using a b c d e f g failing working by blast
qed

section \<open>Nodes that are always constructed\<close>

lemma wrapAll_nodes:
  "wrapAll scope es = (ds, scope') \<Longrightarrow>
     map guid ds = [nextGuid scope ..< nextGuid scope + length es]
   \<and> map object ds = map (\<lambda>e. ElementHandleObj (handle_id e)) es
   \<and> dispatchers scope' = dispatchers scope @ ds
   \<and> messages scope' =
       messages scope @ map (\<lambda>d. Create (guid d) ''ElementHandle'' ElementHandleInit) ds
   \<and> nextGuid scope' = nextGuid scope + length es"
proof (induction es arbitrary: scope ds scope')
  case Nil
  then show ?case by simp
next
  case (Cons e es)
  obtain ds1 s1 where rest: "wrapAll (snd (ElementHandleDispatcher_new scope e)) es = (ds1, s1)"
    by (cases "wrapAll (snd (ElementHandleDispatcher_new scope e)) es")
  from Cons.prems rest have ds: "ds = fst (ElementHandleDispatcher_new scope e) # ds1" and s': "scope' = s1"
    by (simp_all add: split_beta)
  note ih = Cons.IH [OF rest]
  have g: "[nextGuid scope ..< nextGuid scope + length (e # es)] =
      nextGuid scope # [Suc (nextGuid scope) ..< Suc (nextGuid scope) + length es]"
    by (simp add: upt_conv_Cons del: upt_Suc)
  show ?case
    using ih ds s' unfolding g by (simp add: ElementHandleDispatcher_new_eq del: upt_Suc)
qed

text \<open>
  C10.  \<^verbatim>\<open>querySelectorAll\<close> wraps each element of its result, in order, in a newly
  constructed node: the nodes take the next free ids and are appended to the scope with
  one create message each, whether or not a node already wraps the element and however
  often an element occurs in the result.  \<^verbatim>\<open>addScriptTag\<close> and \<^verbatim>\<open>addStyleTag\<close>
  construct a node for the handle they get in the same way.
\<close>

theorem always_constructed:
  "(frame_queryAll (ops frame) (qs_selector params) = Inr es \<longrightarrow>
      (\<exists>ds scope'. querySelectorAll frame params scope = (Inr \<lparr>result_elements = ds\<rparr>, scope')
          \<and> map object ds = map (\<lambda>e. ElementHandleObj (handle_id e)) es
          \<and> map guid ds = [nextGuid scope ..< nextGuid scope + length es]
          \<and> dispatchers scope' = dispatchers scope @ ds
          \<and> messages scope' =
              messages scope @ map (\<lambda>d. Create (guid d) ''ElementHandle'' ElementHandleInit) ds))
   \<and> (frame_addScriptTag (ops frame) tparams = Inr h \<longrightarrow>
      (\<exists>d. addScriptTag frame tparams scope =
              (Inr \<lparr>element = d\<rparr>,
               scope\<lparr>dispatchers := dispatchers scope @ [d],
                      messages := messages scope @ [Create (guid d) ''ElementHandle'' ElementHandleInit],
                      nextGuid := Suc (nextGuid scope)\<rparr>)
          \<and> object d = ElementHandleObj (handle_id h) \<and> guid d = nextGuid scope))
   \<and> (frame_addStyleTag (ops frame) tparams = Inr h \<longrightarrow>
      (\<exists>d. addStyleTag frame tparams scope =
              (Inr \<lparr>element = d\<rparr>,
               scope\<lparr>dispatchers := dispatchers scope @ [d],
                      messages := messages scope @ [Create (guid d) ''ElementHandle'' ElementHandleInit],
                      nextGuid := Suc (nextGuid scope)\<rparr>)
          \<and> object d = ElementHandleObj (handle_id h) \<and> guid d = nextGuid scope))"
proof -
  have q: "frame_queryAll (ops frame) (qs_selector params) = Inr es \<longrightarrow>
      (\<exists>ds scope'. querySelectorAll frame params scope = (Inr \<lparr>result_elements = ds\<rparr>, scope')
          \<and> map object ds = map (\<lambda>e. ElementHandleObj (handle_id e)) es
          \<and> map guid ds = [nextGuid scope ..< nextGuid scope + length es]
          \<and> dispatchers scope' = dispatchers scope @ ds
          \<and> messages scope' =
              messages scope @ map (\<lambda>d. Create (guid d) ''ElementHandle'' ElementHandleInit) ds)"
  proof
    assume r: "frame_queryAll (ops frame) (qs_selector params) = Inr es"
    obtain ds s1 where w: "wrapAll scope es = (ds, s1)"
      by (cases "wrapAll scope es")
    from wrapAll_nodes [OF w]
    have n1: "map object ds = map (\<lambda>e. ElementHandleObj (handle_id e)) es"
      and n2: "map guid ds = [nextGuid scope ..< nextGuid scope + length es]"
      and n3: "dispatchers s1 = dispatchers scope @ ds"
      and n4: "messages s1 =
              messages scope @ map (\<lambda>d. Create (guid d) ''ElementHandle'' ElementHandleInit) ds"
      by blast+
    have call: "querySelectorAll frame params scope = (Inr \<lparr>result_elements = ds\<rparr>, s1)"
      using r w by (simp add: querySelectorAll_def)
    show "\<exists>ds scope'. querySelectorAll frame params scope = (Inr \<lparr>result_elements = ds\<rparr>, scope')
          \<and> map object ds = map (\<lambda>e. ElementHandleObj (handle_id e)) es
          \<and> map guid ds = [nextGuid scope ..< nextGuid scope + length es]
          \<and> dispatchers scope' = dispatchers scope @ ds
          \<and> messages scope' =
              messages scope @ map (\<lambda>d. Create (guid d) ''ElementHandle'' ElementHandleInit) ds"
      by (intro exI conjI) (rule call n1 n2 n3 n4)+
  qed
  have s: "frame_addScriptTag (ops frame) tparams = Inr h \<longrightarrow>
      (\<exists>d. addScriptTag frame tparams scope =
              (Inr \<lparr>element = d\<rparr>,
               scope\<lparr>dispatchers := dispatchers scope @ [d],
                      messages := messages scope @ [Create (guid d) ''ElementHandle'' ElementHandleInit],
                      nextGuid := Suc (nextGuid scope)\<rparr>)
          \<and> object d = ElementHandleObj (handle_id h) \<and> guid d = nextGuid scope)"
    by (simp add: addScriptTag_def ElementHandleDispatcher_new_eq)
  have t: "frame_addStyleTag (ops frame) tparams = Inr h \<longrightarrow>
      (\<exists>d. addStyleTag frame tparams scope =
              (Inr \<lparr>element = d\<rparr>,
               scope\<lparr>dispatchers := dispatchers scope @ [d],
                      messages := messages scope @ [Create (guid d) ''ElementHandle'' ElementHandleInit],
                      nextGuid := Suc (nextGuid scope)\<rparr>)
          \<and> object d = ElementHandleObj (handle_id h) \<and> guid d = nextGuid scope)"
    by (simp add: addStyleTag_def ElementHandleDispatcher_new_eq)
  show ?thesis by (rule conjI [OF q conjI [OF s t]])
qed

theorem always_constructed_witness:
  "frame_queryAll (ops mainFrame) (qs_selector submitQuery) = Inr [ElementHandle 1, ElementHandle 1]
   \<and> existingDispatcher queriedScope (ElementHandleObj 1) =
        Some \<lparr>guid = 1, dtype = ''ElementHandle'', object = ElementHandleObj 1,
               initializer = ElementHandleInit\<rparr>
   \<and> nextGuid queriedScope = 2
   \<and> (\<exists>ds scope'. querySelectorAll mainFrame submitQuery queriedScope =
                      (Inr \<lparr>result_elements = ds\<rparr>, scope')
          \<and> map object ds = map (\<lambda>e. ElementHandleObj (handle_id e)) [ElementHandle 1, ElementHandle 1]
          \<and> map guid ds = [nextGuid queriedScope ..< nextGuid queriedScope + length [ElementHandle 1, ElementHandle 1]]
          \<and> dispatchers scope' = dispatchers queriedScope @ ds
          \<and> messages scope' =
              messages queriedScope @ map (\<lambda>d. Create (guid d) ''ElementHandle'' ElementHandleInit) ds)
   \<and> frame_addScriptTag (ops mainFrame) tagParams = Inr (ElementHandle 2)
   \<and> (\<exists>d. addScriptTag mainFrame tagParams queriedScope =
              (Inr \<lparr>element = d\<rparr>,
               queriedScope\<lparr>dispatchers := dispatchers queriedScope @ [d],
                      messages := messages queriedScope @ [Create (guid d) ''ElementHandle'' ElementHandleInit],
                      nextGuid := Suc (nextGuid queriedScope)\<rparr>)
          \<and> object d = ElementHandleObj (handle_id (ElementHandle 2)) \<and> guid d = nextGuid queriedScope)
   \<and> frame_addStyleTag (ops mainFrame) tagParams = Inr (ElementHandle 3)
   \<and> (\<exists>d. addStyleTag mainFrame tagParams queriedScope =
              (Inr \<lparr>element = d\<rparr>,
               queriedScope\<lparr>dispatchers := dispatchers queriedScope @ [d],
                      messages := messages queriedScope @ [Create (guid d) ''ElementHandle'' ElementHandleInit],
                      nextGuid := Suc (nextGuid queriedScope)\<rparr>)
          \<and> object d = ElementHandleObj (handle_id (ElementHandle 3)) \<and> guid d = nextGuid queriedScope)"
proof -
  have a: "frame_queryAll (ops mainFrame) (qs_selector submitQuery) = Inr [ElementHandle 1, ElementHandle 1]"
    and b: "frame_addScriptTag (ops mainFrame) tagParams = Inr (ElementHandle 2)"
    and c: "frame_addStyleTag (ops mainFrame) tagParams = Inr (ElementHandle 3)"
    by (simp_all add: mainFrame_def sampleOps_def)
  have d: "existingDispatcher queriedScope (ElementHandleObj 1) =
        Some \<lparr>guid = 1, dtype = ''ElementHandle'', object = ElementHandleObj 1,
               initializer = ElementHandleInit\<rparr>"
    by (simp add: existingDispatcher_def queriedScope_eq mainDispatcher_eq)
  have e: "nextGuid queriedScope = 2"
    by (simp add: queriedScope_eq)
  note all = always_constructed [where frame = mainFrame and scope = queriedScope
      and params = submitQuery and es = "[ElementHandle 1, ElementHandle 1]"]
  note script = always_constructed [where frame = mainFrame and scope = queriedScope
      and tparams = tagParams and h = "ElementHandle 2"]
  note style = always_constructed [where frame = mainFrame and scope = queriedScope
      and tparams = tagParams and h = "ElementHandle 3"]
  show ?thesis
    using a b c d e all script style by blast
qed

section \<open>The initializer snapshot\<close>

lemma onNavigation_extends:
  "\<exists>xs ys. dispatchers (onNavigation this ev s) = dispatchers s @ xs
         \<and> messages (onNavigation this ev s) = messages s @ ys"
proof (cases "ev_newDocument ev")
  case None
  with onNavigation_cases [of ev this s] show ?thesis by simp
next
  case (Some doc)
  show ?thesis
  proof (cases "di_request doc")
    case None
    with Some onNavigation_cases [of ev this s doc] show ?thesis by simp
  next
    case (Some r)
    note req = this
    show ?thesis
    proof (cases "existingDispatcher s (RequestObj (request_id r))")
      case None
      with \<open>ev_newDocument ev = Some doc\<close> req onNavigation_cases [of ev this s doc r]
      show ?thesis by simp
    next
      case (Some d)
      with \<open>ev_newDocument ev = Some doc\<close> req onNavigation_cases [of ev this s doc r d]
      show ?thesis by simp
    qed
  qed
qed

text \<open>
  C8.  When a FrameDispatcher is constructed, the initializer sent with its create
  message holds the frame's url, its name, the dispatcher of its parent frame (absent
  when the frame has no parent; the lookup creates nothing, so it is absent too when the
  parent has no node) and its subtree lifecycle events, as they are at that moment.  Nothing updates the snapshot afterwards: a later \<^verbatim>\<open>from\<close> for the same frame,
  whatever the frame's state by then, returns the node with the initializer it was
  created with, and the handlers of the frame's notifications leave the node and the
  create message as they are.
\<close>

theorem initializer_snapshot:
  assumes none: "existingDispatcher scope (FrameObj (frame_id frame)) = None"
  shows "\<exists>d scope'. FrameDispatcher_from scope frame = (d, scope')
     \<and> initializer d =
         FrameInit \<lparr>fi_url = url frame, fi_name = name frame,
                     fi_parentFrame =
                       (case parentFrame frame of
                          None \<Rightarrow> None
                        | Some p \<Rightarrow> map_option guid (existingDispatcher scope (FrameObj (frame_id p)))),
                     fi_loadStates = subtreeLifecycleEvents frame\<rparr>
     \<and> messages scope' = messages scope @ [Create (guid d) ''Frame'' (initializer d)]
     \<and> (\<forall>later. frame_id later = frame_id frame \<longrightarrow> FrameDispatcher_from scope' later = (d, scope'))
     \<and> (\<forall>this ev. existingDispatcher (onNavigation this ev scope') (FrameObj (frame_id frame)) = Some d
           \<and> take (length (messages scope')) (messages (onNavigation this ev scope')) = messages scope')
     \<and> (\<forall>this l. existingDispatcher (onAddLifecycle this l scope') (FrameObj (frame_id frame)) = Some d
           \<and> take (length (messages scope')) (messages (onAddLifecycle this l scope')) = messages scope')
     \<and> (\<forall>this l. existingDispatcher (onRemoveLifecycle this l scope') (FrameObj (frame_id frame)) = Some d
           \<and> take (length (messages scope')) (messages (onRemoveLifecycle this l scope')) = messages scope')"
proof -
  obtain d s1 where call: "FrameDispatcher_from scope frame = (d, s1)"
    by (cases "FrameDispatcher_from scope frame")
  have init: "initializer d =
         FrameInit \<lparr>fi_url = url frame, fi_name = name frame,
                     fi_parentFrame =
                       (case parentFrame frame of
                          None \<Rightarrow> None
                        | Some p \<Rightarrow> map_option guid (existingDispatcher scope (FrameObj (frame_id p)))),
                     fi_loadStates = subtreeLifecycleEvents frame\<rparr>"
    using call none
    by (auto simp: FrameDispatcher_from_def FrameDispatcher_new_def Dispatcher_new_def Let_def
          lookupNullableDispatcher_def split: option.splits)
  have msgs: "messages s1 = messages scope @ [Create (guid d) ''Frame'' (initializer d)]"
    using from_fresh [OF none] call by auto
  have ex: "existingDispatcher s1 (FrameObj (frame_id frame)) = Some d"
    by (rule from_then_existing [OF call])
  have later: "\<forall>later. frame_id later = frame_id frame \<longrightarrow> FrameDispatcher_from s1 later = (d, s1)"
    using ex by (simp add: from_existing)
  have nav: "\<forall>this ev. existingDispatcher (onNavigation this ev s1) (FrameObj (frame_id frame)) = Some d
           \<and> take (length (messages s1)) (messages (onNavigation this ev s1)) = messages s1"
  proof (intro allI)
    fix this ev
    obtain xs ys where "dispatchers (onNavigation this ev s1) = dispatchers s1 @ xs"
      and "messages (onNavigation this ev s1) = messages s1 @ ys"
      using onNavigation_extends by blast
    with existing_stable [OF ex]
    show "existingDispatcher (onNavigation this ev s1) (FrameObj (frame_id frame)) = Some d
           \<and> take (length (messages s1)) (messages (onNavigation this ev s1)) = messages s1"
      by simp
  qed
  have add: "\<forall>this l. existingDispatcher (onAddLifecycle this l s1) (FrameObj (frame_id frame)) = Some d
           \<and> take (length (messages s1)) (messages (onAddLifecycle this l s1)) = messages s1"
    using ex by (simp add: onAddLifecycle_def dispatchEvent_base_def existingDispatcher_def)
  have remove: "\<forall>this l. existingDispatcher (onRemoveLifecycle this l s1) (FrameObj (frame_id frame)) = Some d
           \<and> take (length (messages s1)) (messages (onRemoveLifecycle this l s1)) = messages s1"
    using ex by (simp add: onRemoveLifecycle_def dispatchEvent_base_def existingDispatcher_def)
  show ?thesis by (intro exI conjI) (rule call init msgs later nav add remove)+
qed

theorem initializer_snapshot_witness:
  "existingDispatcher mainScope (FrameObj (frame_id childFrame)) = None
   \<and> (\<exists>d scope'. FrameDispatcher_from mainScope childFrame = (d, scope')
     \<and> initializer d =
         FrameInit \<lparr>fi_url = url childFrame, fi_name = name childFrame,
                     fi_parentFrame =
                       (case parentFrame childFrame of
                          None \<Rightarrow> None
                        | Some p \<Rightarrow> map_option guid (existingDispatcher mainScope (FrameObj (frame_id p)))),
                     fi_loadStates = subtreeLifecycleEvents childFrame\<rparr>
     \<and> messages scope' = messages mainScope @ [Create (guid d) ''Frame'' (initializer d)]
     \<and> (\<forall>later. frame_id later = frame_id childFrame \<longrightarrow> FrameDispatcher_from scope' later = (d, scope'))
     \<and> (\<forall>this ev. existingDispatcher (onNavigation this ev scope') (FrameObj (frame_id childFrame)) = Some d
           \<and> take (length (messages scope')) (messages (onNavigation this ev scope')) = messages scope')
     \<and> (\<forall>this l. existingDispatcher (onAddLifecycle this l scope') (FrameObj (frame_id childFrame)) = Some d
           \<and> take (length (messages scope')) (messages (onAddLifecycle this l scope')) = messages scope')
     \<and> (\<forall>this l. existingDispatcher (onRemoveLifecycle this l scope') (FrameObj (frame_id childFrame)) = Some d
           \<and> take (length (messages scope')) (messages (onRemoveLifecycle this l scope')) = messages scope'))
   \<and> (case parentFrame childFrame of
         None \<Rightarrow> None
       | Some p \<Rightarrow> map_option guid (existingDispatcher mainScope (FrameObj (frame_id p)))) = Some 0
   \<and> existingDispatcher emptyScope (FrameObj (frame_id mainFrame)) = None
   \<and> initializer (fst (FrameDispatcher_from emptyScope mainFrame)) =
        FrameInit \<lparr>fi_url = ''about:blank'', fi_name = ''main'', fi_parentFrame = None,
                    fi_loadStates = [''load'']\<rparr>
   \<and> initializer (fst (FrameDispatcher_from mainScope mainFrameLater)) =
        FrameInit \<lparr>fi_url = ''about:blank'', fi_name = ''main'', fi_parentFrame = None,
                    fi_loadStates = [''load'']\<rparr>"
proof -
  have a: "existingDispatcher mainScope (FrameObj (frame_id childFrame)) = None"
    by (simp add: existingDispatcher_def mainScope_eq mainDispatcher_eq childFrame_def)
  have b: "(case parentFrame childFrame of
         None \<Rightarrow> None
       | Some p \<Rightarrow> map_option guid (existingDispatcher mainScope (FrameObj (frame_id p)))) = Some 0"
    by (simp add: existingDispatcher_def mainScope_eq mainDispatcher_eq childFrame_def mainFrame_def)
  have c: "existingDispatcher emptyScope (FrameObj (frame_id mainFrame)) = None"
    by (simp add: existingDispatcher_def emptyScope_def)
  have d: "frame_id mainFrameLater = frame_id mainFrame"
    by (simp add: mainFrame_def mainFrameLater_def)
  have e: "url mainFrame = ''about:blank''" "name mainFrame = ''main''" "parentFrame mainFrame = None"
    "subtreeLifecycleEvents mainFrame = [''load'']"
    by (simp_all add: mainFrame_def)
  from initializer_snapshot [OF c] d e
  have f: "initializer (fst (FrameDispatcher_from emptyScope mainFrame)) =
        FrameInit \<lparr>fi_url = ''about:blank'', fi_name = ''main'', fi_parentFrame = None,
                    fi_loadStates = [''load'']\<rparr>
     \<and> initializer (fst (FrameDispatcher_from mainScope mainFrameLater)) =
        FrameInit \<lparr>fi_url = ''about:blank'', fi_name = ''main'', fi_parentFrame = None,
                    fi_loadStates = [''load'']\<rparr>"
    unfolding mainScope_def by (metis fst_conv snd_conv option.simps(4))
  show ?thesis
    using a b c f initializer_snapshot [OF a] by blast
qed

section \<open>The action runner\<close>

lemma runAbortableTask_timeout:
  "fst (runAbortableTask task budget md scope) = Inl (TimeoutError x) \<Longrightarrow> x = md"
  by (auto simp: runAbortableTask_def controller_run_def ProgressController_new_def Let_def
        split: prod.splits if_splits sum.splits)

lemma runAbortableTask_expired:
  "budget \<le> fst (task (ProgressController_new budget md)) \<Longrightarrow>
     fst (runAbortableTask task budget md scope) = Inl (TimeoutError md)"
  by (auto simp: runAbortableTask_def controller_run_def ProgressController_new_def Let_def
        split: prod.splits if_splits sum.splits)

section \<open>goto and setContent\<close>

text \<open>
  C2.  \<^verbatim>\<open>goto\<close> and \<^verbatim>\<open>setContent\<close> have the shape of \<^verbatim>\<open>click\<close>: the action
  metadata is built from the method name and the params (type, value, page), and the work
  of the frame is run by the action runner with that metadata and a budget.  The budget
  is the per-call \<^verbatim>\<open>timeout\<close> param when the call has one, and the page's default
  navigation timeout otherwise (for \<^verbatim>\<open>click\<close>, the page's default action timeout).
\<close>

theorem navigation_actions:
  "goto frame params metadata scope =
     (case runAbortableTask (\<lambda>progress. frame_gotoWork (ops frame) progress (goto_url params) params)
             (case timeout_param params of
                Some t \<Rightarrow> t
              | None \<Rightarrow> defaultNavigationTimeout (timeoutSettings (page frame)))
             (goto_actionMetadata frame params metadata) scope of
        (Inl e, scope') \<Rightarrow> (Inl e, scope')
      | (Inr r, scope') \<Rightarrow>
          (Inr \<lparr>response = lookupNullableDispatcher scope'
                   (map_option (\<lambda>x. ResponseObj (response_id x)) r)\<rparr>, scope'))
   \<and> goto_actionMetadata frame params metadata ''type'' = Some (MStr ''goto'')
   \<and> goto_actionMetadata frame params metadata ''value'' = Some (MStr (goto_url params))
   \<and> goto_actionMetadata frame params metadata ''page'' = Some (MPage (page_id (page frame)))
   \<and> setContent frame cparams metadata scope =
       runAbortableTask (\<lambda>progress. frame_setContentWork (ops frame) progress (html cparams) cparams)
         (case timeout_param cparams of
            Some t \<Rightarrow> t
          | None \<Rightarrow> defaultNavigationTimeout (timeoutSettings (page frame)))
         (setContent_actionMetadata frame cparams metadata) scope
   \<and> setContent_actionMetadata frame cparams metadata ''type'' = Some (MStr ''setContent'')
   \<and> setContent_actionMetadata frame cparams metadata ''value'' = Some (MStr (html cparams))
   \<and> setContent_actionMetadata frame cparams metadata ''page'' = Some (MPage (page_id (page frame)))
   \<and> click frame sparams metadata scope =
       runAbortableTask (\<lambda>progress. frame_click (ops frame) progress (selector sparams) sparams)
         (case timeout_param sparams of
            Some t \<Rightarrow> t
          | None \<Rightarrow> defaultTimeout (timeoutSettings (page frame)))
         (click_actionMetadata frame sparams metadata) scope"
  by (simp add: goto_def goto_controller_def Frame_goto_def setContent_def setContent_controller_def
        Frame_setContent_def click_def runAbortableTask_def navigationTimeout_def timeout_def
        goto_actionMetadata_def setContent_actionMetadata_def)

theorem navigation_actions_witness:
  "timeout_param shortGotoParams = Some 100
   \<and> fst (goto mainFrame shortGotoParams None mainScope) =
        Inl (TimeoutError (goto_actionMetadata mainFrame shortGotoParams None))
   \<and> timeout_param gotoParams = None
   \<and> defaultNavigationTimeout (timeoutSettings (page mainFrame)) = 60000
   \<and> fst (goto mainFrame gotoParams None mainScope) = Inr \<lparr>response = None\<rparr>
   \<and> goto_actionMetadata mainFrame gotoParams None ''type'' = Some (MStr ''goto'')
   \<and> goto_actionMetadata mainFrame gotoParams None ''value'' = Some (MStr (goto_url gotoParams))
   \<and> goto_actionMetadata mainFrame gotoParams None ''page'' = Some (MPage (page_id (page mainFrame)))
   \<and> timeout_param shortContentParams = Some 5
   \<and> fst (setContent mainFrame shortContentParams None mainScope) =
        Inl (TimeoutError (setContent_actionMetadata mainFrame shortContentParams None))
   \<and> timeout_param contentParams = None
   \<and> fst (setContent mainFrame contentParams None mainScope) = Inr ()
   \<and> setContent_actionMetadata mainFrame contentParams None ''type'' = Some (MStr ''setContent'')
   \<and> setContent_actionMetadata mainFrame contentParams None ''value'' = Some (MStr (html contentParams))"
proof -
  note short = navigation_actions [where frame = mainFrame and scope = mainScope and metadata = None
      and params = shortGotoParams and cparams = shortContentParams]
  note long = navigation_actions [where frame = mainFrame and scope = mainScope and metadata = None
      and params = gotoParams and cparams = contentParams]
  have a1: "timeout_param shortGotoParams = Some 100" and a2: "timeout_param gotoParams = None"
    and a3: "timeout_param shortContentParams = Some 5" and a4: "timeout_param contentParams = None"
    and a5: "defaultNavigationTimeout (timeoutSettings (page mainFrame)) = 60000"
    by (simp_all add: shortGotoParams_def gotoParams_def shortContentParams_def contentParams_def
          mainFrame_def samplePage_def)
  have g1: "fst (goto mainFrame shortGotoParams None mainScope) =
        Inl (TimeoutError (goto_actionMetadata mainFrame shortGotoParams None))"
    unfolding short [THEN conjunct1] a1
    by (simp add: runAbortableTask_def controller_run_def ProgressController_new_def Let_def
          mainFrame_def sampleOps_def)
  have g2: "fst (goto mainFrame gotoParams None mainScope) = Inr \<lparr>response = None\<rparr>"
    unfolding long [THEN conjunct1] a2 a5
    by (simp add: runAbortableTask_def controller_run_def ProgressController_new_def Let_def
          mainFrame_def sampleOps_def lookupNullableDispatcher_def existingDispatcher_def
          report_def mainScope_eq mainDispatcher_eq)
  have c1: "fst (setContent mainFrame shortContentParams None mainScope) =
        Inl (TimeoutError (setContent_actionMetadata mainFrame shortContentParams None))"
    unfolding short [THEN conjunct2, THEN conjunct2, THEN conjunct2, THEN conjunct2, THEN conjunct1] a3
    by (simp add: runAbortableTask_def controller_run_def ProgressController_new_def Let_def
          mainFrame_def sampleOps_def)
  have c2: "fst (setContent mainFrame contentParams None mainScope) = Inr ()"
    unfolding long [THEN conjunct2, THEN conjunct2, THEN conjunct2, THEN conjunct2, THEN conjunct1] a4 a5
    by (simp add: runAbortableTask_def controller_run_def ProgressController_new_def Let_def
          mainFrame_def sampleOps_def)
  note m1 = long [THEN conjunct2, THEN conjunct1]
  note m2 = long [THEN conjunct2, THEN conjunct2, THEN conjunct1]
  note m3 = long [THEN conjunct2, THEN conjunct2, THEN conjunct2, THEN conjunct1]
  note m4 = long [THEN conjunct2, THEN conjunct2, THEN conjunct2, THEN conjunct2, THEN conjunct2,
      THEN conjunct1]
  note m5 = long [THEN conjunct2, THEN conjunct2, THEN conjunct2, THEN conjunct2, THEN conjunct2,
      THEN conjunct2, THEN conjunct1]
  show ?thesis
    by (intro conjI a1 a2 a3 a4 a5 g1 g2 c1 c2 m1 m2 m3 m4 m5)
qed

section \<open>Metadata of the selector-based actions\<close>

lemma click_identified:
  "(\<exists>task budget. click frame params metadata scope =
        runAbortableTask task budget (click_actionMetadata frame params metadata) scope)
   \<and> click_actionMetadata frame params metadata ''type'' = Some (MStr ''click'')
   \<and> click_actionMetadata frame params metadata ''target'' = Some (MStr (selector params))
   \<and> (fst (click frame params metadata scope) = Inl (TimeoutError x) \<longrightarrow>
        x ''type'' = Some (MStr ''click'') \<and> x ''target'' = Some (MStr (selector params)))"
proof -
  have run: "(\<exists>task budget. click frame params metadata scope =
        runAbortableTask task budget (click_actionMetadata frame params metadata) scope)"
    unfolding click_def by blast
  have md: "click_actionMetadata frame params metadata ''type'' = Some (MStr ''click'')" "click_actionMetadata frame params metadata ''target'' = Some (MStr (selector params))"
    by (simp_all add: click_actionMetadata_def)
  have expired: "(fst (click frame params metadata scope) = Inl (TimeoutError x) \<longrightarrow>
        x ''type'' = Some (MStr ''click'') \<and> x ''target'' = Some (MStr (selector params)))"
    using runAbortableTask_timeout md unfolding click_def by blast
  from run md expired show ?thesis by blast
qed

lemma dblclick_identified:
  "(\<exists>task budget. dblclick frame params metadata scope =
        runAbortableTask task budget (dblclick_actionMetadata frame params metadata) scope)
   \<and> dblclick_actionMetadata frame params metadata ''type'' = Some (MStr ''dblclick'')
   \<and> dblclick_actionMetadata frame params metadata ''target'' = Some (MStr (selector params))
   \<and> (fst (dblclick frame params metadata scope) = Inl (TimeoutError x) \<longrightarrow>
        x ''type'' = Some (MStr ''dblclick'') \<and> x ''target'' = Some (MStr (selector params)))"
proof -
  have run: "(\<exists>task budget. dblclick frame params metadata scope =
        runAbortableTask task budget (dblclick_actionMetadata frame params metadata) scope)"
    unfolding dblclick_def by blast
  have md: "dblclick_actionMetadata frame params metadata ''type'' = Some (MStr ''dblclick'')" "dblclick_actionMetadata frame params metadata ''target'' = Some (MStr (selector params))"
    by (simp_all add: dblclick_actionMetadata_def)
  have expired: "(fst (dblclick frame params metadata scope) = Inl (TimeoutError x) \<longrightarrow>
        x ''type'' = Some (MStr ''dblclick'') \<and> x ''target'' = Some (MStr (selector params)))"
    using runAbortableTask_timeout md unfolding dblclick_def by blast
  from run md expired show ?thesis by blast
qed

lemma fill_identified:
  "(\<exists>task budget. fill frame fparams metadata scope =
        runAbortableTask task budget (fill_actionMetadata frame fparams metadata) scope)
   \<and> fill_actionMetadata frame fparams metadata ''type'' = Some (MStr ''fill'')
   \<and> fill_actionMetadata frame fparams metadata ''target'' = Some (MStr (selector fparams))
   \<and> fill_actionMetadata frame fparams metadata ''value'' = Some (MStr (fill_value fparams))
   \<and> (fst (fill frame fparams metadata scope) = Inl (TimeoutError x) \<longrightarrow>
        x ''type'' = Some (MStr ''fill'') \<and> x ''target'' = Some (MStr (selector fparams)) \<and> x ''value'' = Some (MStr (fill_value fparams)))"
proof -
  have run: "(\<exists>task budget. fill frame fparams metadata scope =
        runAbortableTask task budget (fill_actionMetadata frame fparams metadata) scope)"
    unfolding fill_def by blast
  have md: "fill_actionMetadata frame fparams metadata ''type'' = Some (MStr ''fill'')" "fill_actionMetadata frame fparams metadata ''target'' = Some (MStr (selector fparams))" "fill_actionMetadata frame fparams metadata ''value'' = Some (MStr (fill_value fparams))"
    by (simp_all add: fill_actionMetadata_def)
  have expired: "(fst (fill frame fparams metadata scope) = Inl (TimeoutError x) \<longrightarrow>
        x ''type'' = Some (MStr ''fill'') \<and> x ''target'' = Some (MStr (selector fparams)) \<and> x ''value'' = Some (MStr (fill_value fparams)))"
    using runAbortableTask_timeout md unfolding fill_def by blast
  from run md expired show ?thesis by blast
qed

lemma hover_identified:
  "(\<exists>task budget. hover frame params metadata scope =
        runAbortableTask task budget (hover_actionMetadata frame params metadata) scope)
   \<and> hover_actionMetadata frame params metadata ''type'' = Some (MStr ''hover'')
   \<and> hover_actionMetadata frame params metadata ''target'' = Some (MStr (selector params))
   \<and> (fst (hover frame params metadata scope) = Inl (TimeoutError x) \<longrightarrow>
        x ''type'' = Some (MStr ''hover'') \<and> x ''target'' = Some (MStr (selector params)))"
proof -
  have run: "(\<exists>task budget. hover frame params metadata scope =
        runAbortableTask task budget (hover_actionMetadata frame params metadata) scope)"
    unfolding hover_def by blast
  have md: "hover_actionMetadata frame params metadata ''type'' = Some (MStr ''hover'')" "hover_actionMetadata frame params metadata ''target'' = Some (MStr (selector params))"
    by (simp_all add: hover_actionMetadata_def)
  have expired: "(fst (hover frame params metadata scope) = Inl (TimeoutError x) \<longrightarrow>
        x ''type'' = Some (MStr ''hover'') \<and> x ''target'' = Some (MStr (selector params)))"
    using runAbortableTask_timeout md unfolding hover_def by blast
  from run md expired show ?thesis by blast
qed

lemma selectOption_identified:
  "(\<exists>task budget. selectOption frame oparams metadata scope =
        runAbortableTask task budget (selectOption_actionMetadata frame oparams metadata) scope)
   \<and> selectOption_actionMetadata frame oparams metadata ''type'' = Some (MStr ''selectOption'')
   \<and> selectOption_actionMetadata frame oparams metadata ''target'' = Some (MStr (selector oparams))
   \<and> (fst (selectOption frame oparams metadata scope) = Inl (TimeoutError x) \<longrightarrow>
        x ''type'' = Some (MStr ''selectOption'') \<and> x ''target'' = Some (MStr (selector oparams)))"
proof -
  have run: "(\<exists>task budget. selectOption frame oparams metadata scope =
        runAbortableTask task budget (selectOption_actionMetadata frame oparams metadata) scope)"
    unfolding selectOption_def by blast
  have md: "selectOption_actionMetadata frame oparams metadata ''type'' = Some (MStr ''selectOption'')" "selectOption_actionMetadata frame oparams metadata ''target'' = Some (MStr (selector oparams))"
    by (simp_all add: selectOption_actionMetadata_def)
  have expired: "(fst (selectOption frame oparams metadata scope) = Inl (TimeoutError x) \<longrightarrow>
        x ''type'' = Some (MStr ''selectOption'') \<and> x ''target'' = Some (MStr (selector oparams)))"
    using runAbortableTask_timeout md unfolding selectOption_def by blast
  from run md expired show ?thesis by blast
qed

lemma setInputFiles_identified:
  "(\<exists>task budget. setInputFiles frame iparams metadata scope =
        runAbortableTask task budget (setInputFiles_actionMetadata frame iparams metadata) scope)
   \<and> setInputFiles_actionMetadata frame iparams metadata ''type'' = Some (MStr ''setInputFiles'')
   \<and> setInputFiles_actionMetadata frame iparams metadata ''target'' = Some (MStr (selector iparams))
   \<and> (fst (setInputFiles frame iparams metadata scope) = Inl (TimeoutError x) \<longrightarrow>
        x ''type'' = Some (MStr ''setInputFiles'') \<and> x ''target'' = Some (MStr (selector iparams)))"
proof -
  have run: "(\<exists>task budget. setInputFiles frame iparams metadata scope =
        runAbortableTask task budget (setInputFiles_actionMetadata frame iparams metadata) scope)"
    unfolding setInputFiles_def by blast
  have md: "setInputFiles_actionMetadata frame iparams metadata ''type'' = Some (MStr ''setInputFiles'')" "setInputFiles_actionMetadata frame iparams metadata ''target'' = Some (MStr (selector iparams))"
    by (simp_all add: setInputFiles_actionMetadata_def)
  have expired: "(fst (setInputFiles frame iparams metadata scope) = Inl (TimeoutError x) \<longrightarrow>
        x ''type'' = Some (MStr ''setInputFiles'') \<and> x ''target'' = Some (MStr (selector iparams)))"
    using runAbortableTask_timeout md unfolding setInputFiles_def by blast
  from run md expired show ?thesis by blast
qed

lemma type_identified:
  "(\<exists>task budget. type frame tparams metadata scope =
        runAbortableTask task budget (type_actionMetadata frame tparams metadata) scope)
   \<and> type_actionMetadata frame tparams metadata ''type'' = Some (MStr ''type'')
   \<and> type_actionMetadata frame tparams metadata ''target'' = Some (MStr (selector tparams))
   \<and> type_actionMetadata frame tparams metadata ''value'' = Some (MStr (type_text tparams))
   \<and> (fst (type frame tparams metadata scope) = Inl (TimeoutError x) \<longrightarrow>
        x ''type'' = Some (MStr ''type'') \<and> x ''target'' = Some (MStr (selector tparams)) \<and> x ''value'' = Some (MStr (type_text tparams)))"
proof -
  have run: "(\<exists>task budget. type frame tparams metadata scope =
        runAbortableTask task budget (type_actionMetadata frame tparams metadata) scope)"
    unfolding type_def by blast
  have md: "type_actionMetadata frame tparams metadata ''type'' = Some (MStr ''type'')" "type_actionMetadata frame tparams metadata ''target'' = Some (MStr (selector tparams))" "type_actionMetadata frame tparams metadata ''value'' = Some (MStr (type_text tparams))"
    by (simp_all add: type_actionMetadata_def)
  have expired: "(fst (type frame tparams metadata scope) = Inl (TimeoutError x) \<longrightarrow>
        x ''type'' = Some (MStr ''type'') \<and> x ''target'' = Some (MStr (selector tparams)) \<and> x ''value'' = Some (MStr (type_text tparams)))"
    using runAbortableTask_timeout md unfolding type_def by blast
  from run md expired show ?thesis by blast
qed

lemma press_identified:
  "(\<exists>task budget. press frame pparams metadata scope =
        runAbortableTask task budget (press_actionMetadata frame pparams metadata) scope)
   \<and> press_actionMetadata frame pparams metadata ''type'' = Some (MStr ''press'')
   \<and> press_actionMetadata frame pparams metadata ''target'' = Some (MStr (selector pparams))
   \<and> press_actionMetadata frame pparams metadata ''value'' = Some (MStr (key pparams))
   \<and> (fst (press frame pparams metadata scope) = Inl (TimeoutError x) \<longrightarrow>
        x ''type'' = Some (MStr ''press'') \<and> x ''target'' = Some (MStr (selector pparams)) \<and> x ''value'' = Some (MStr (key pparams)))"
proof -
  have run: "(\<exists>task budget. press frame pparams metadata scope =
        runAbortableTask task budget (press_actionMetadata frame pparams metadata) scope)"
    unfolding press_def by blast
  have md: "press_actionMetadata frame pparams metadata ''type'' = Some (MStr ''press'')" "press_actionMetadata frame pparams metadata ''target'' = Some (MStr (selector pparams))" "press_actionMetadata frame pparams metadata ''value'' = Some (MStr (key pparams))"
    by (simp_all add: press_actionMetadata_def)
  have expired: "(fst (press frame pparams metadata scope) = Inl (TimeoutError x) \<longrightarrow>
        x ''type'' = Some (MStr ''press'') \<and> x ''target'' = Some (MStr (selector pparams)) \<and> x ''value'' = Some (MStr (key pparams)))"
    using runAbortableTask_timeout md unfolding press_def by blast
  from run md expired show ?thesis by blast
qed

lemma check_identified:
  "(\<exists>task budget. check frame params metadata scope =
        runAbortableTask task budget (check_actionMetadata frame params metadata) scope)
   \<and> check_actionMetadata frame params metadata ''type'' = Some (MStr ''check'')
   \<and> check_actionMetadata frame params metadata ''target'' = Some (MStr (selector params))
   \<and> (fst (check frame params metadata scope) = Inl (TimeoutError x) \<longrightarrow>
        x ''type'' = Some (MStr ''check'') \<and> x ''target'' = Some (MStr (selector params)))"
proof -
  have run: "(\<exists>task budget. check frame params metadata scope =
        runAbortableTask task budget (check_actionMetadata frame params metadata) scope)"
    unfolding check_def by blast
  have md: "check_actionMetadata frame params metadata ''type'' = Some (MStr ''check'')" "check_actionMetadata frame params metadata ''target'' = Some (MStr (selector params))"
    by (simp_all add: check_actionMetadata_def)
  have expired: "(fst (check frame params metadata scope) = Inl (TimeoutError x) \<longrightarrow>
        x ''type'' = Some (MStr ''check'') \<and> x ''target'' = Some (MStr (selector params)))"
    using runAbortableTask_timeout md unfolding check_def by blast
  from run md expired show ?thesis by blast
qed

lemma uncheck_identified:
  "(\<exists>task budget. uncheck frame params metadata scope =
        runAbortableTask task budget (uncheck_actionMetadata frame params metadata) scope)
   \<and> uncheck_actionMetadata frame params metadata ''type'' = Some (MStr ''uncheck'')
   \<and> uncheck_actionMetadata frame params metadata ''target'' = Some (MStr (selector params))
   \<and> (fst (uncheck frame params metadata scope) = Inl (TimeoutError x) \<longrightarrow>
        x ''type'' = Some (MStr ''uncheck'') \<and> x ''target'' = Some (MStr (selector params)))"
proof -
  have run: "(\<exists>task budget. uncheck frame params metadata scope =
        runAbortableTask task budget (uncheck_actionMetadata frame params metadata) scope)"
    unfolding uncheck_def by blast
  have md: "uncheck_actionMetadata frame params metadata ''type'' = Some (MStr ''uncheck'')" "uncheck_actionMetadata frame params metadata ''target'' = Some (MStr (selector params))"
    by (simp_all add: uncheck_actionMetadata_def)
  have expired: "(fst (uncheck frame params metadata scope) = Inl (TimeoutError x) \<longrightarrow>
        x ''type'' = Some (MStr ''uncheck'') \<and> x ''target'' = Some (MStr (selector params)))"
    using runAbortableTask_timeout md unfolding uncheck_def by blast
  from run md expired show ?thesis by blast
qed

text \<open>
  C5.  Each of \<^verbatim>\<open>click\<close>, \<^verbatim>\<open>dblclick\<close>, \<^verbatim>\<open>fill\<close>, \<^verbatim>\<open>hover\<close>,
  \<^verbatim>\<open>selectOption\<close>, \<^verbatim>\<open>setInputFiles\<close>, \<^verbatim>\<open>type\<close>, \<^verbatim>\<open>press\<close>, \<^verbatim>\<open>check\<close> and
  \<^verbatim>\<open>uncheck\<close> hands the action runner metadata whose type is the method's name and
  whose target is the selector of the params (and, for fill, type and press, whose value
  is the text filled or typed or the key pressed); so whenever the outcome is a timeout,
  the metadata it carries names that action and that selector.
\<close>

theorem action_metadata_identifies:
  "((\<exists>task budget. click frame params metadata scope =
        runAbortableTask task budget (click_actionMetadata frame params metadata) scope)
    \<and> click_actionMetadata frame params metadata ''type'' = Some (MStr ''click'')
    \<and> click_actionMetadata frame params metadata ''target'' = Some (MStr (selector params))
    \<and> (fst (click frame params metadata scope) = Inl (TimeoutError x) \<longrightarrow>
        x ''type'' = Some (MStr ''click'') \<and> x ''target'' = Some (MStr (selector params))))
   \<and> ((\<exists>task budget. dblclick frame params metadata scope =
        runAbortableTask task budget (dblclick_actionMetadata frame params metadata) scope)
    \<and> dblclick_actionMetadata frame params metadata ''type'' = Some (MStr ''dblclick'')
    \<and> dblclick_actionMetadata frame params metadata ''target'' = Some (MStr (selector params))
    \<and> (fst (dblclick frame params metadata scope) = Inl (TimeoutError x) \<longrightarrow>
        x ''type'' = Some (MStr ''dblclick'') \<and> x ''target'' = Some (MStr (selector params))))
   \<and> ((\<exists>task budget. fill frame fparams metadata scope =
        runAbortableTask task budget (fill_actionMetadata frame fparams metadata) scope)
    \<and> fill_actionMetadata frame fparams metadata ''type'' = Some (MStr ''fill'')
    \<and> fill_actionMetadata frame fparams metadata ''target'' = Some (MStr (selector fparams))
    \<and> fill_actionMetadata frame fparams metadata ''value'' = Some (MStr (fill_value fparams))
    \<and> (fst (fill frame fparams metadata scope) = Inl (TimeoutError x) \<longrightarrow>
        x ''type'' = Some (MStr ''fill'') \<and> x ''target'' = Some (MStr (selector fparams)) \<and> x ''value'' = Some (MStr (fill_value fparams))))
   \<and> ((\<exists>task budget. hover frame params metadata scope =
        runAbortableTask task budget (hover_actionMetadata frame params metadata) scope)
    \<and> hover_actionMetadata frame params metadata ''type'' = Some (MStr ''hover'')
    \<and> hover_actionMetadata frame params metadata ''target'' = Some (MStr (selector params))
    \<and> (fst (hover frame params metadata scope) = Inl (TimeoutError x) \<longrightarrow>
        x ''type'' = Some (MStr ''hover'') \<and> x ''target'' = Some (MStr (selector params))))
   \<and> ((\<exists>task budget. selectOption frame oparams metadata scope =
        runAbortableTask task budget (selectOption_actionMetadata frame oparams metadata) scope)
    \<and> selectOption_actionMetadata frame oparams metadata ''type'' = Some (MStr ''selectOption'')
    \<and> selectOption_actionMetadata frame oparams metadata ''target'' = Some (MStr (selector oparams))
    \<and> (fst (selectOption frame oparams metadata scope) = Inl (TimeoutError x) \<longrightarrow>
        x ''type'' = Some (MStr ''selectOption'') \<and> x ''target'' = Some (MStr (selector oparams))))
   \<and> ((\<exists>task budget. setInputFiles frame iparams metadata scope =
        runAbortableTask task budget (setInputFiles_actionMetadata frame iparams metadata) scope)
    \<and> setInputFiles_actionMetadata frame iparams metadata ''type'' = Some (MStr ''setInputFiles'')
    \<and> setInputFiles_actionMetadata frame iparams metadata ''target'' = Some (MStr (selector iparams))
    \<and> (fst (setInputFiles frame iparams metadata scope) = Inl (TimeoutError x) \<longrightarrow>
        x ''type'' = Some (MStr ''setInputFiles'') \<and> x ''target'' = Some (MStr (selector iparams))))
   \<and> ((\<exists>task budget. type frame tparams metadata scope =
        runAbortableTask task budget (type_actionMetadata frame tparams metadata) scope)
    \<and> type_actionMetadata frame tparams metadata ''type'' = Some (MStr ''type'')
    \<and> type_actionMetadata frame tparams metadata ''target'' = Some (MStr (selector tparams))
    \<and> type_actionMetadata frame tparams metadata ''value'' = Some (MStr (type_text tparams))
    \<and> (fst (type frame tparams metadata scope) = Inl (TimeoutError x) \<longrightarrow>
        x ''type'' = Some (MStr ''type'') \<and> x ''target'' = Some (MStr (selector tparams)) \<and> x ''value'' = Some (MStr (type_text tparams))))
   \<and> ((\<exists>task budget. press frame pparams metadata scope =
        runAbortableTask task budget (press_actionMetadata frame pparams metadata) scope)
    \<and> press_actionMetadata frame pparams metadata ''type'' = Some (MStr ''press'')
    \<and> press_actionMetadata frame pparams metadata ''target'' = Some (MStr (selector pparams))
    \<and> press_actionMetadata frame pparams metadata ''value'' = Some (MStr (key pparams))
    \<and> (fst (press frame pparams metadata scope) = Inl (TimeoutError x) \<longrightarrow>
        x ''type'' = Some (MStr ''press'') \<and> x ''target'' = Some (MStr (selector pparams)) \<and> x ''value'' = Some (MStr (key pparams))))
   \<and> ((\<exists>task budget. check frame params metadata scope =
        runAbortableTask task budget (check_actionMetadata frame params metadata) scope)
    \<and> check_actionMetadata frame params metadata ''type'' = Some (MStr ''check'')
    \<and> check_actionMetadata frame params metadata ''target'' = Some (MStr (selector params))
    \<and> (fst (check frame params metadata scope) = Inl (TimeoutError x) \<longrightarrow>
        x ''type'' = Some (MStr ''check'') \<and> x ''target'' = Some (MStr (selector params))))
   \<and> ((\<exists>task budget. uncheck frame params metadata scope =
        runAbortableTask task budget (uncheck_actionMetadata frame params metadata) scope)
    \<and> uncheck_actionMetadata frame params metadata ''type'' = Some (MStr ''uncheck'')
    \<and> uncheck_actionMetadata frame params metadata ''target'' = Some (MStr (selector params))
    \<and> (fst (uncheck frame params metadata scope) = Inl (TimeoutError x) \<longrightarrow>
        x ''type'' = Some (MStr ''uncheck'') \<and> x ''target'' = Some (MStr (selector params))))"
  by (rule conjI [OF click_identified
      conjI [OF dblclick_identified
      conjI [OF fill_identified
      conjI [OF hover_identified
      conjI [OF selectOption_identified
      conjI [OF setInputFiles_identified
      conjI [OF type_identified
      conjI [OF press_identified
      conjI [OF check_identified uncheck_identified]]]]]]]]])

theorem action_metadata_identifies_witness:
  "(fst (click mainFrame shortSubmitParams None mainScope) = Inl (TimeoutError (click_actionMetadata mainFrame shortSubmitParams None))
     \<and> click_actionMetadata mainFrame shortSubmitParams None ''type'' = Some (MStr ''click'')
     \<and> click_actionMetadata mainFrame shortSubmitParams None ''target'' = Some (MStr (selector shortSubmitParams)))
   \<and> (fst (dblclick mainFrame shortSubmitParams None mainScope) = Inl (TimeoutError (dblclick_actionMetadata mainFrame shortSubmitParams None))
     \<and> dblclick_actionMetadata mainFrame shortSubmitParams None ''type'' = Some (MStr ''dblclick'')
     \<and> dblclick_actionMetadata mainFrame shortSubmitParams None ''target'' = Some (MStr (selector shortSubmitParams)))
   \<and> (fst (fill mainFrame shortFillParams None mainScope) = Inl (TimeoutError (fill_actionMetadata mainFrame shortFillParams None))
     \<and> fill_actionMetadata mainFrame shortFillParams None ''type'' = Some (MStr ''fill'')
     \<and> fill_actionMetadata mainFrame shortFillParams None ''target'' = Some (MStr (selector shortFillParams))
     \<and> fill_actionMetadata mainFrame shortFillParams None ''value'' = Some (MStr (fill_value shortFillParams)))
   \<and> (fst (hover mainFrame shortSubmitParams None mainScope) = Inl (TimeoutError (hover_actionMetadata mainFrame shortSubmitParams None))
     \<and> hover_actionMetadata mainFrame shortSubmitParams None ''type'' = Some (MStr ''hover'')
     \<and> hover_actionMetadata mainFrame shortSubmitParams None ''target'' = Some (MStr (selector shortSubmitParams)))
   \<and> (fst (selectOption mainFrame shortSelectParams None mainScope) = Inl (TimeoutError (selectOption_actionMetadata mainFrame shortSelectParams None))
     \<and> selectOption_actionMetadata mainFrame shortSelectParams None ''type'' = Some (MStr ''selectOption'')
     \<and> selectOption_actionMetadata mainFrame shortSelectParams None ''target'' = Some (MStr (selector shortSelectParams)))
   \<and> (fst (setInputFiles mainFrame shortFilesParams None mainScope) = Inl (TimeoutError (setInputFiles_actionMetadata mainFrame shortFilesParams None))
     \<and> setInputFiles_actionMetadata mainFrame shortFilesParams None ''type'' = Some (MStr ''setInputFiles'')
     \<and> setInputFiles_actionMetadata mainFrame shortFilesParams None ''target'' = Some (MStr (selector shortFilesParams)))
   \<and> (fst (type mainFrame shortTypeParams None mainScope) = Inl (TimeoutError (type_actionMetadata mainFrame shortTypeParams None))
     \<and> type_actionMetadata mainFrame shortTypeParams None ''type'' = Some (MStr ''type'')
     \<and> type_actionMetadata mainFrame shortTypeParams None ''target'' = Some (MStr (selector shortTypeParams))
     \<and> type_actionMetadata mainFrame shortTypeParams None ''value'' = Some (MStr (type_text shortTypeParams)))
   \<and> (fst (press mainFrame shortPressParams None mainScope) = Inl (TimeoutError (press_actionMetadata mainFrame shortPressParams None))
     \<and> press_actionMetadata mainFrame shortPressParams None ''type'' = Some (MStr ''press'')
     \<and> press_actionMetadata mainFrame shortPressParams None ''target'' = Some (MStr (selector shortPressParams))
     \<and> press_actionMetadata mainFrame shortPressParams None ''value'' = Some (MStr (key shortPressParams)))
   \<and> (fst (check mainFrame shortSubmitParams None mainScope) = Inl (TimeoutError (check_actionMetadata mainFrame shortSubmitParams None))
     \<and> check_actionMetadata mainFrame shortSubmitParams None ''type'' = Some (MStr ''check'')
     \<and> check_actionMetadata mainFrame shortSubmitParams None ''target'' = Some (MStr (selector shortSubmitParams)))
   \<and> (fst (uncheck mainFrame shortSubmitParams None mainScope) = Inl (TimeoutError (uncheck_actionMetadata mainFrame shortSubmitParams None))
     \<and> uncheck_actionMetadata mainFrame shortSubmitParams None ''type'' = Some (MStr ''uncheck'')
     \<and> uncheck_actionMetadata mainFrame shortSubmitParams None ''target'' = Some (MStr (selector shortSubmitParams)))
   \<and> selector shortSubmitParams = ''#submit''
   \<and> timeout_param shortSubmitParams = Some 10
   \<and> fst (click mainFrame submitParams None mainScope) = Inr ()"
proof -
  note all = action_metadata_identifies [where frame = mainFrame and scope = mainScope and metadata = None
      and params = shortSubmitParams and fparams = shortFillParams and oparams = shortSelectParams
      and iparams = shortFilesParams and tparams = shortTypeParams and pparams = shortPressParams]
  have click_expired: "fst (click mainFrame shortSubmitParams None mainScope) = Inl (TimeoutError (click_actionMetadata mainFrame shortSubmitParams None))"
    by (simp add: click_def runAbortableTask_def controller_run_def ProgressController_new_def timeout_def Let_def
          mainFrame_def sampleOps_def samplePage_def shortSubmitParams_def)
  have click_carried: "fst (click mainFrame shortSubmitParams None mainScope) = Inl (TimeoutError (click_actionMetadata mainFrame shortSubmitParams None))
     \<and> click_actionMetadata mainFrame shortSubmitParams None ''type'' = Some (MStr ''click'')
     \<and> click_actionMetadata mainFrame shortSubmitParams None ''target'' = Some (MStr (selector shortSubmitParams))"
    using click_expired all [where x = "click_actionMetadata mainFrame shortSubmitParams None", THEN conjunct1]
    by blast
  have dblclick_expired: "fst (dblclick mainFrame shortSubmitParams None mainScope) = Inl (TimeoutError (dblclick_actionMetadata mainFrame shortSubmitParams None))"
    by (simp add: dblclick_def runAbortableTask_def controller_run_def ProgressController_new_def timeout_def Let_def
          mainFrame_def sampleOps_def samplePage_def shortSubmitParams_def)
  have dblclick_carried: "fst (dblclick mainFrame shortSubmitParams None mainScope) = Inl (TimeoutError (dblclick_actionMetadata mainFrame shortSubmitParams None))
     \<and> dblclick_actionMetadata mainFrame shortSubmitParams None ''type'' = Some (MStr ''dblclick'')
     \<and> dblclick_actionMetadata mainFrame shortSubmitParams None ''target'' = Some (MStr (selector shortSubmitParams))"
    using dblclick_expired all [where x = "dblclick_actionMetadata mainFrame shortSubmitParams None", THEN conjunct2, THEN conjunct1]
    by blast
  have fill_expired: "fst (fill mainFrame shortFillParams None mainScope) = Inl (TimeoutError (fill_actionMetadata mainFrame shortFillParams None))"
    by (simp add: fill_def runAbortableTask_def controller_run_def ProgressController_new_def timeout_def Let_def
          mainFrame_def sampleOps_def samplePage_def shortFillParams_def)
  have fill_carried: "fst (fill mainFrame shortFillParams None mainScope) = Inl (TimeoutError (fill_actionMetadata mainFrame shortFillParams None))
     \<and> fill_actionMetadata mainFrame shortFillParams None ''type'' = Some (MStr ''fill'')
     \<and> fill_actionMetadata mainFrame shortFillParams None ''target'' = Some (MStr (selector shortFillParams))
     \<and> fill_actionMetadata mainFrame shortFillParams None ''value'' = Some (MStr (fill_value shortFillParams))"
    using fill_expired all [where x = "fill_actionMetadata mainFrame shortFillParams None", THEN conjunct2, THEN conjunct2, THEN conjunct1]
    by blast
  have hover_expired: "fst (hover mainFrame shortSubmitParams None mainScope) = Inl (TimeoutError (hover_actionMetadata mainFrame shortSubmitParams None))"
    by (simp add: hover_def runAbortableTask_def controller_run_def ProgressController_new_def timeout_def Let_def
          mainFrame_def sampleOps_def samplePage_def shortSubmitParams_def)
  have hover_carried: "fst (hover mainFrame shortSubmitParams None mainScope) = Inl (TimeoutError (hover_actionMetadata mainFrame shortSubmitParams None))
     \<and> hover_actionMetadata mainFrame shortSubmitParams None ''type'' = Some (MStr ''hover'')
     \<and> hover_actionMetadata mainFrame shortSubmitParams None ''target'' = Some (MStr (selector shortSubmitParams))"
    using hover_expired all [where x = "hover_actionMetadata mainFrame shortSubmitParams None", THEN conjunct2, THEN conjunct2, THEN conjunct2, THEN conjunct1]
    by blast
  have selectOption_expired: "fst (selectOption mainFrame shortSelectParams None mainScope) = Inl (TimeoutError (selectOption_actionMetadata mainFrame shortSelectParams None))"
    by (simp add: selectOption_def runAbortableTask_def controller_run_def ProgressController_new_def timeout_def Let_def
          mainFrame_def sampleOps_def samplePage_def shortSelectParams_def)
  have selectOption_carried: "fst (selectOption mainFrame shortSelectParams None mainScope) = Inl (TimeoutError (selectOption_actionMetadata mainFrame shortSelectParams None))
     \<and> selectOption_actionMetadata mainFrame shortSelectParams None ''type'' = Some (MStr ''selectOption'')
     \<and> selectOption_actionMetadata mainFrame shortSelectParams None ''target'' = Some (MStr (selector shortSelectParams))"
    using selectOption_expired all [where x = "selectOption_actionMetadata mainFrame shortSelectParams None", THEN conjunct2, THEN conjunct2, THEN conjunct2, THEN conjunct2, THEN conjunct1]
    by blast
  have setInputFiles_expired: "fst (setInputFiles mainFrame shortFilesParams None mainScope) = Inl (TimeoutError (setInputFiles_actionMetadata mainFrame shortFilesParams None))"
    by (simp add: setInputFiles_def runAbortableTask_def controller_run_def ProgressController_new_def timeout_def Let_def
          mainFrame_def sampleOps_def samplePage_def shortFilesParams_def)
  have setInputFiles_carried: "fst (setInputFiles mainFrame shortFilesParams None mainScope) = Inl (TimeoutError (setInputFiles_actionMetadata mainFrame shortFilesParams None))
     \<and> setInputFiles_actionMetadata mainFrame shortFilesParams None ''type'' = Some (MStr ''setInputFiles'')
     \<and> setInputFiles_actionMetadata mainFrame shortFilesParams None ''target'' = Some (MStr (selector shortFilesParams))"
    using setInputFiles_expired all [where x = "setInputFiles_actionMetadata mainFrame shortFilesParams None", THEN conjunct2, THEN conjunct2, THEN conjunct2, THEN conjunct2, THEN conjunct2, THEN conjunct1]
    by blast
  have type_expired: "fst (type mainFrame shortTypeParams None mainScope) = Inl (TimeoutError (type_actionMetadata mainFrame shortTypeParams None))"
    by (simp add: type_def runAbortableTask_def controller_run_def ProgressController_new_def timeout_def Let_def
          mainFrame_def sampleOps_def samplePage_def shortTypeParams_def)
  have type_carried: "fst (type mainFrame shortTypeParams None mainScope) = Inl (TimeoutError (type_actionMetadata mainFrame shortTypeParams None))
     \<and> type_actionMetadata mainFrame shortTypeParams None ''type'' = Some (MStr ''type'')
     \<and> type_actionMetadata mainFrame shortTypeParams None ''target'' = Some (MStr (selector shortTypeParams))
     \<and> type_actionMetadata mainFrame shortTypeParams None ''value'' = Some (MStr (type_text shortTypeParams))"
    using type_expired all [where x = "type_actionMetadata mainFrame shortTypeParams None", THEN conjunct2, THEN conjunct2, THEN conjunct2, THEN conjunct2, THEN conjunct2, THEN conjunct2, THEN conjunct1]
    by blast
  have press_expired: "fst (press mainFrame shortPressParams None mainScope) = Inl (TimeoutError (press_actionMetadata mainFrame shortPressParams None))"
    by (simp add: press_def runAbortableTask_def controller_run_def ProgressController_new_def timeout_def Let_def
          mainFrame_def sampleOps_def samplePage_def shortPressParams_def)
  have press_carried: "fst (press mainFrame shortPressParams None mainScope) = Inl (TimeoutError (press_actionMetadata mainFrame shortPressParams None))
     \<and> press_actionMetadata mainFrame shortPressParams None ''type'' = Some (MStr ''press'')
     \<and> press_actionMetadata mainFrame shortPressParams None ''target'' = Some (MStr (selector shortPressParams))
     \<and> press_actionMetadata mainFrame shortPressParams None ''value'' = Some (MStr (key shortPressParams))"
    using press_expired all [where x = "press_actionMetadata mainFrame shortPressParams None", THEN conjunct2, THEN conjunct2, THEN conjunct2, THEN conjunct2, THEN conjunct2, THEN conjunct2, THEN conjunct2, THEN conjunct1]
    by blast
  have check_expired: "fst (check mainFrame shortSubmitParams None mainScope) = Inl (TimeoutError (check_actionMetadata mainFrame shortSubmitParams None))"
    by (simp add: check_def runAbortableTask_def controller_run_def ProgressController_new_def timeout_def Let_def
          mainFrame_def sampleOps_def samplePage_def shortSubmitParams_def)
  have check_carried: "fst (check mainFrame shortSubmitParams None mainScope) = Inl (TimeoutError (check_actionMetadata mainFrame shortSubmitParams None))
     \<and> check_actionMetadata mainFrame shortSubmitParams None ''type'' = Some (MStr ''check'')
     \<and> check_actionMetadata mainFrame shortSubmitParams None ''target'' = Some (MStr (selector shortSubmitParams))"
    using check_expired all [where x = "check_actionMetadata mainFrame shortSubmitParams None", THEN conjunct2, THEN conjunct2, THEN conjunct2, THEN conjunct2, THEN conjunct2, THEN conjunct2, THEN conjunct2, THEN conjunct2, THEN conjunct1]
    by blast
  have uncheck_expired: "fst (uncheck mainFrame shortSubmitParams None mainScope) = Inl (TimeoutError (uncheck_actionMetadata mainFrame shortSubmitParams None))"
    by (simp add: uncheck_def runAbortableTask_def controller_run_def ProgressController_new_def timeout_def Let_def
          mainFrame_def sampleOps_def samplePage_def shortSubmitParams_def)
  have uncheck_carried: "fst (uncheck mainFrame shortSubmitParams None mainScope) = Inl (TimeoutError (uncheck_actionMetadata mainFrame shortSubmitParams None))
     \<and> uncheck_actionMetadata mainFrame shortSubmitParams None ''type'' = Some (MStr ''uncheck'')
     \<and> uncheck_actionMetadata mainFrame shortSubmitParams None ''target'' = Some (MStr (selector shortSubmitParams))"
    using uncheck_expired all [where x = "uncheck_actionMetadata mainFrame shortSubmitParams None", THEN conjunct2, THEN conjunct2, THEN conjunct2, THEN conjunct2, THEN conjunct2, THEN conjunct2, THEN conjunct2, THEN conjunct2, THEN conjunct2]
    by blast
  have sel: "selector shortSubmitParams = ''#submit''" and budget: "timeout_param shortSubmitParams = Some 10"
    by (simp_all add: shortSubmitParams_def)
  have ok: "fst (click mainFrame submitParams None mainScope) = Inr ()"
    by (simp add: click_def runAbortableTask_def controller_run_def ProgressController_new_def timeout_def Let_def
          mainFrame_def sampleOps_def samplePage_def submitParams_def)
  show ?thesis
    by (intro conjI click_carried dblclick_carried fill_carried hover_carried selectOption_carried setInputFiles_carried type_carried press_carried check_carried uncheck_carried sel budget ok)
qed

section \<open>Incoming metadata\<close>

lemma goto_metadata_keys:
  "(k = ''type'' \<or> k = ''value'' \<or> k = ''page'' \<longrightarrow>
        goto_actionMetadata frame gparams md k = goto_actionMetadata frame gparams md' k)
   \<and> (k \<noteq> ''type'' \<and> k \<noteq> ''value'' \<and> k \<noteq> ''page'' \<longrightarrow>
        goto_actionMetadata frame gparams md k = spread md k)"
  by (auto simp: goto_actionMetadata_def)

lemma setContent_metadata_keys:
  "(k = ''type'' \<or> k = ''value'' \<or> k = ''page'' \<longrightarrow>
        setContent_actionMetadata frame cparams md k = setContent_actionMetadata frame cparams md' k)
   \<and> (k \<noteq> ''type'' \<and> k \<noteq> ''value'' \<and> k \<noteq> ''page'' \<longrightarrow>
        setContent_actionMetadata frame cparams md k = spread md k)"
  by (auto simp: setContent_actionMetadata_def)

lemma click_metadata_keys:
  "(k = ''type'' \<or> k = ''target'' \<or> k = ''page'' \<longrightarrow>
        click_actionMetadata frame params md k = click_actionMetadata frame params md' k)
   \<and> (k \<noteq> ''type'' \<and> k \<noteq> ''target'' \<and> k \<noteq> ''page'' \<longrightarrow>
        click_actionMetadata frame params md k = spread md k)"
  by (auto simp: click_actionMetadata_def)

lemma dblclick_metadata_keys:
  "(k = ''type'' \<or> k = ''target'' \<or> k = ''page'' \<longrightarrow>
        dblclick_actionMetadata frame params md k = dblclick_actionMetadata frame params md' k)
   \<and> (k \<noteq> ''type'' \<and> k \<noteq> ''target'' \<and> k \<noteq> ''page'' \<longrightarrow>
        dblclick_actionMetadata frame params md k = spread md k)"
  by (auto simp: dblclick_actionMetadata_def)

lemma fill_metadata_keys:
  "(k = ''type'' \<or> k = ''target'' \<or> k = ''page'' \<or> k = ''value'' \<longrightarrow>
        fill_actionMetadata frame fparams md k = fill_actionMetadata frame fparams md' k)
   \<and> (k \<noteq> ''type'' \<and> k \<noteq> ''target'' \<and> k \<noteq> ''page'' \<and> k \<noteq> ''value'' \<longrightarrow>
        fill_actionMetadata frame fparams md k = spread md k)"
  by (auto simp: fill_actionMetadata_def)

lemma hover_metadata_keys:
  "(k = ''type'' \<or> k = ''target'' \<or> k = ''page'' \<longrightarrow>
        hover_actionMetadata frame params md k = hover_actionMetadata frame params md' k)
   \<and> (k \<noteq> ''type'' \<and> k \<noteq> ''target'' \<and> k \<noteq> ''page'' \<longrightarrow>
        hover_actionMetadata frame params md k = spread md k)"
  by (auto simp: hover_actionMetadata_def)

lemma selectOption_metadata_keys:
  "(k = ''type'' \<or> k = ''target'' \<or> k = ''page'' \<longrightarrow>
        selectOption_actionMetadata frame oparams md k = selectOption_actionMetadata frame oparams md' k)
   \<and> (k \<noteq> ''type'' \<and> k \<noteq> ''target'' \<and> k \<noteq> ''page'' \<longrightarrow>
        selectOption_actionMetadata frame oparams md k = spread md k)"
  by (auto simp: selectOption_actionMetadata_def)

lemma setInputFiles_metadata_keys:
  "(k = ''type'' \<or> k = ''target'' \<or> k = ''page'' \<longrightarrow>
        setInputFiles_actionMetadata frame iparams md k = setInputFiles_actionMetadata frame iparams md' k)
   \<and> (k \<noteq> ''type'' \<and> k \<noteq> ''target'' \<and> k \<noteq> ''page'' \<longrightarrow>
        setInputFiles_actionMetadata frame iparams md k = spread md k)"
  by (auto simp: setInputFiles_actionMetadata_def)

lemma type_metadata_keys:
  "(k = ''type'' \<or> k = ''target'' \<or> k = ''page'' \<or> k = ''value'' \<longrightarrow>
        type_actionMetadata frame tparams md k = type_actionMetadata frame tparams md' k)
   \<and> (k \<noteq> ''type'' \<and> k \<noteq> ''target'' \<and> k \<noteq> ''page'' \<and> k \<noteq> ''value'' \<longrightarrow>
        type_actionMetadata frame tparams md k = spread md k)"
  by (auto simp: type_actionMetadata_def)

lemma press_metadata_keys:
  "(k = ''type'' \<or> k = ''target'' \<or> k = ''page'' \<or> k = ''value'' \<longrightarrow>
        press_actionMetadata frame pparams md k = press_actionMetadata frame pparams md' k)
   \<and> (k \<noteq> ''type'' \<and> k \<noteq> ''target'' \<and> k \<noteq> ''page'' \<and> k \<noteq> ''value'' \<longrightarrow>
        press_actionMetadata frame pparams md k = spread md k)"
  by (auto simp: press_actionMetadata_def)

lemma check_metadata_keys:
  "(k = ''type'' \<or> k = ''target'' \<or> k = ''page'' \<longrightarrow>
        check_actionMetadata frame params md k = check_actionMetadata frame params md' k)
   \<and> (k \<noteq> ''type'' \<and> k \<noteq> ''target'' \<and> k \<noteq> ''page'' \<longrightarrow>
        check_actionMetadata frame params md k = spread md k)"
  by (auto simp: check_actionMetadata_def)

lemma uncheck_metadata_keys:
  "(k = ''type'' \<or> k = ''target'' \<or> k = ''page'' \<longrightarrow>
        uncheck_actionMetadata frame params md k = uncheck_actionMetadata frame params md' k)
   \<and> (k \<noteq> ''type'' \<and> k \<noteq> ''target'' \<and> k \<noteq> ''page'' \<longrightarrow>
        uncheck_actionMetadata frame params md k = spread md k)"
  by (auto simp: uncheck_actionMetadata_def)

text \<open>
  C9, as the code has it.  The incoming metadata is spread first and the fields of the
  method are assigned after it.  So the keys a method assigns (type and page for every
  method; target for the selector-based ones; value for goto, setContent, fill, type and
  press) hold what the method and its params say, whatever the incoming metadata holds
  under them: two calls that differ in the incoming metadata agree on them.  Every other
  key of the action metadata is the incoming one: \<^verbatim>\<open>goto\<close> and \<^verbatim>\<open>setContent\<close>
  assign no target, and click, dblclick, hover, selectOption, setInputFiles, check and
  uncheck assign no value, so an incoming key of that name passes through.
\<close>

theorem assigned_keys_override:
  "((k = ''type'' \<or> k = ''value'' \<or> k = ''page'' \<longrightarrow>
        goto_actionMetadata frame gparams md k = goto_actionMetadata frame gparams md' k)
    \<and> (k \<noteq> ''type'' \<and> k \<noteq> ''value'' \<and> k \<noteq> ''page'' \<longrightarrow>
        goto_actionMetadata frame gparams md k = spread md k))
   \<and> ((k = ''type'' \<or> k = ''value'' \<or> k = ''page'' \<longrightarrow>
        setContent_actionMetadata frame cparams md k = setContent_actionMetadata frame cparams md' k)
    \<and> (k \<noteq> ''type'' \<and> k \<noteq> ''value'' \<and> k \<noteq> ''page'' \<longrightarrow>
        setContent_actionMetadata frame cparams md k = spread md k))
   \<and> ((k = ''type'' \<or> k = ''target'' \<or> k = ''page'' \<longrightarrow>
        click_actionMetadata frame params md k = click_actionMetadata frame params md' k)
    \<and> (k \<noteq> ''type'' \<and> k \<noteq> ''target'' \<and> k \<noteq> ''page'' \<longrightarrow>
        click_actionMetadata frame params md k = spread md k))
   \<and> ((k = ''type'' \<or> k = ''target'' \<or> k = ''page'' \<longrightarrow>
        dblclick_actionMetadata frame params md k = dblclick_actionMetadata frame params md' k)
    \<and> (k \<noteq> ''type'' \<and> k \<noteq> ''target'' \<and> k \<noteq> ''page'' \<longrightarrow>
        dblclick_actionMetadata frame params md k = spread md k))
   \<and> ((k = ''type'' \<or> k = ''target'' \<or> k = ''page'' \<or> k = ''value'' \<longrightarrow>
        fill_actionMetadata frame fparams md k = fill_actionMetadata frame fparams md' k)
    \<and> (k \<noteq> ''type'' \<and> k \<noteq> ''target'' \<and> k \<noteq> ''page'' \<and> k \<noteq> ''value'' \<longrightarrow>
        fill_actionMetadata frame fparams md k = spread md k))
   \<and> ((k = ''type'' \<or> k = ''target'' \<or> k = ''page'' \<longrightarrow>
        hover_actionMetadata frame params md k = hover_actionMetadata frame params md' k)
    \<and> (k \<noteq> ''type'' \<and> k \<noteq> ''target'' \<and> k \<noteq> ''page'' \<longrightarrow>
        hover_actionMetadata frame params md k = spread md k))
   \<and> ((k = ''type'' \<or> k = ''target'' \<or> k = ''page'' \<longrightarrow>
        selectOption_actionMetadata frame oparams md k = selectOption_actionMetadata frame oparams md' k)
    \<and> (k \<noteq> ''type'' \<and> k \<noteq> ''target'' \<and> k \<noteq> ''page'' \<longrightarrow>
        selectOption_actionMetadata frame oparams md k = spread md k))
   \<and> ((k = ''type'' \<or> k = ''target'' \<or> k = ''page'' \<longrightarrow>
        setInputFiles_actionMetadata frame iparams md k = setInputFiles_actionMetadata frame iparams md' k)
    \<and> (k \<noteq> ''type'' \<and> k \<noteq> ''target'' \<and> k \<noteq> ''page'' \<longrightarrow>
        setInputFiles_actionMetadata frame iparams md k = spread md k))
   \<and> ((k = ''type'' \<or> k = ''target'' \<or> k = ''page'' \<or> k = ''value'' \<longrightarrow>
        type_actionMetadata frame tparams md k = type_actionMetadata frame tparams md' k)
    \<and> (k \<noteq> ''type'' \<and> k \<noteq> ''target'' \<and> k \<noteq> ''page'' \<and> k \<noteq> ''value'' \<longrightarrow>
        type_actionMetadata frame tparams md k = spread md k))
   \<and> ((k = ''type'' \<or> k = ''target'' \<or> k = ''page'' \<or> k = ''value'' \<longrightarrow>
        press_actionMetadata frame pparams md k = press_actionMetadata frame pparams md' k)
    \<and> (k \<noteq> ''type'' \<and> k \<noteq> ''target'' \<and> k \<noteq> ''page'' \<and> k \<noteq> ''value'' \<longrightarrow>
        press_actionMetadata frame pparams md k = spread md k))
   \<and> ((k = ''type'' \<or> k = ''target'' \<or> k = ''page'' \<longrightarrow>
        check_actionMetadata frame params md k = check_actionMetadata frame params md' k)
    \<and> (k \<noteq> ''type'' \<and> k \<noteq> ''target'' \<and> k \<noteq> ''page'' \<longrightarrow>
        check_actionMetadata frame params md k = spread md k))
   \<and> ((k = ''type'' \<or> k = ''target'' \<or> k = ''page'' \<longrightarrow>
        uncheck_actionMetadata frame params md k = uncheck_actionMetadata frame params md' k)
    \<and> (k \<noteq> ''type'' \<and> k \<noteq> ''target'' \<and> k \<noteq> ''page'' \<longrightarrow>
        uncheck_actionMetadata frame params md k = spread md k))"
  by (rule conjI [OF goto_metadata_keys
      conjI [OF setContent_metadata_keys
      conjI [OF click_metadata_keys
      conjI [OF dblclick_metadata_keys
      conjI [OF fill_metadata_keys
      conjI [OF hover_metadata_keys
      conjI [OF selectOption_metadata_keys
      conjI [OF setInputFiles_metadata_keys
      conjI [OF type_metadata_keys
      conjI [OF press_metadata_keys
      conjI [OF check_metadata_keys uncheck_metadata_keys]]]]]]]]]]])

theorem assigned_keys_override_witness:
  "goto_actionMetadata mainFrame gotoParams (Some forgedMetadata) ''type'' =
       goto_actionMetadata mainFrame gotoParams (Some plainMetadata) ''type''
   \<and> goto_actionMetadata mainFrame gotoParams (Some forgedMetadata) ''stack'' = spread (Some forgedMetadata) ''stack''
   \<and> setContent_actionMetadata mainFrame contentParams (Some forgedMetadata) ''type'' =
       setContent_actionMetadata mainFrame contentParams (Some plainMetadata) ''type''
   \<and> setContent_actionMetadata mainFrame contentParams (Some forgedMetadata) ''stack'' = spread (Some forgedMetadata) ''stack''
   \<and> click_actionMetadata mainFrame shortSubmitParams (Some forgedMetadata) ''type'' =
       click_actionMetadata mainFrame shortSubmitParams (Some plainMetadata) ''type''
   \<and> click_actionMetadata mainFrame shortSubmitParams (Some forgedMetadata) ''stack'' = spread (Some forgedMetadata) ''stack''
   \<and> dblclick_actionMetadata mainFrame shortSubmitParams (Some forgedMetadata) ''type'' =
       dblclick_actionMetadata mainFrame shortSubmitParams (Some plainMetadata) ''type''
   \<and> dblclick_actionMetadata mainFrame shortSubmitParams (Some forgedMetadata) ''stack'' = spread (Some forgedMetadata) ''stack''
   \<and> fill_actionMetadata mainFrame shortFillParams (Some forgedMetadata) ''type'' =
       fill_actionMetadata mainFrame shortFillParams (Some plainMetadata) ''type''
   \<and> fill_actionMetadata mainFrame shortFillParams (Some forgedMetadata) ''stack'' = spread (Some forgedMetadata) ''stack''
   \<and> hover_actionMetadata mainFrame shortSubmitParams (Some forgedMetadata) ''type'' =
       hover_actionMetadata mainFrame shortSubmitParams (Some plainMetadata) ''type''
   \<and> hover_actionMetadata mainFrame shortSubmitParams (Some forgedMetadata) ''stack'' = spread (Some forgedMetadata) ''stack''
   \<and> selectOption_actionMetadata mainFrame shortSelectParams (Some forgedMetadata) ''type'' =
       selectOption_actionMetadata mainFrame shortSelectParams (Some plainMetadata) ''type''
   \<and> selectOption_actionMetadata mainFrame shortSelectParams (Some forgedMetadata) ''stack'' = spread (Some forgedMetadata) ''stack''
   \<and> setInputFiles_actionMetadata mainFrame shortFilesParams (Some forgedMetadata) ''type'' =
       setInputFiles_actionMetadata mainFrame shortFilesParams (Some plainMetadata) ''type''
   \<and> setInputFiles_actionMetadata mainFrame shortFilesParams (Some forgedMetadata) ''stack'' = spread (Some forgedMetadata) ''stack''
   \<and> type_actionMetadata mainFrame shortTypeParams (Some forgedMetadata) ''type'' =
       type_actionMetadata mainFrame shortTypeParams (Some plainMetadata) ''type''
   \<and> type_actionMetadata mainFrame shortTypeParams (Some forgedMetadata) ''stack'' = spread (Some forgedMetadata) ''stack''
   \<and> press_actionMetadata mainFrame shortPressParams (Some forgedMetadata) ''type'' =
       press_actionMetadata mainFrame shortPressParams (Some plainMetadata) ''type''
   \<and> press_actionMetadata mainFrame shortPressParams (Some forgedMetadata) ''stack'' = spread (Some forgedMetadata) ''stack''
   \<and> check_actionMetadata mainFrame shortSubmitParams (Some forgedMetadata) ''type'' =
       check_actionMetadata mainFrame shortSubmitParams (Some plainMetadata) ''type''
   \<and> check_actionMetadata mainFrame shortSubmitParams (Some forgedMetadata) ''stack'' = spread (Some forgedMetadata) ''stack''
   \<and> uncheck_actionMetadata mainFrame shortSubmitParams (Some forgedMetadata) ''type'' =
       uncheck_actionMetadata mainFrame shortSubmitParams (Some plainMetadata) ''type''
   \<and> uncheck_actionMetadata mainFrame shortSubmitParams (Some forgedMetadata) ''stack'' = spread (Some forgedMetadata) ''stack''
   \<and> click_actionMetadata mainFrame shortSubmitParams (Some forgedMetadata) ''target'' =
       click_actionMetadata mainFrame shortSubmitParams (Some plainMetadata) ''target''
   \<and> click_actionMetadata mainFrame shortSubmitParams (Some forgedMetadata) ''value'' =
       spread (Some forgedMetadata) ''value''
   \<and> spread (Some forgedMetadata) ''value'' = Some (MStr ''forged value'')
   \<and> spread (Some forgedMetadata) ''stack'' = Some (MStr ''at test.js:1'')"
proof -
  note ty = assigned_keys_override [where k = "''type''" and frame = mainFrame and md = "Some forgedMetadata" and md' = "Some plainMetadata"
      and gparams = gotoParams and cparams = contentParams and params = shortSubmitParams
      and fparams = shortFillParams and oparams = shortSelectParams and iparams = shortFilesParams
      and tparams = shortTypeParams and pparams = shortPressParams]
  note st = assigned_keys_override [where k = "''stack''" and frame = mainFrame and md = "Some forgedMetadata" and md' = "Some plainMetadata"
      and gparams = gotoParams and cparams = contentParams and params = shortSubmitParams
      and fparams = shortFillParams and oparams = shortSelectParams and iparams = shortFilesParams
      and tparams = shortTypeParams and pparams = shortPressParams]
  note tg = assigned_keys_override [where k = "''target''" and frame = mainFrame and md = "Some forgedMetadata" and md' = "Some plainMetadata"
      and gparams = gotoParams and cparams = contentParams and params = shortSubmitParams
      and fparams = shortFillParams and oparams = shortSelectParams and iparams = shortFilesParams
      and tparams = shortTypeParams and pparams = shortPressParams]
  note va = assigned_keys_override [where k = "''value''" and frame = mainFrame and md = "Some forgedMetadata" and md' = "Some plainMetadata"
      and gparams = gotoParams and cparams = contentParams and params = shortSubmitParams
      and fparams = shortFillParams and oparams = shortSelectParams and iparams = shortFilesParams
      and tparams = shortTypeParams and pparams = shortPressParams]
  have goto_type: "goto_actionMetadata mainFrame gotoParams (Some forgedMetadata) ''type'' =
       goto_actionMetadata mainFrame gotoParams (Some plainMetadata) ''type''"
    using ty [THEN conjunct1] by simp
  have goto_stack: "goto_actionMetadata mainFrame gotoParams (Some forgedMetadata) ''stack'' = spread (Some forgedMetadata) ''stack''"
    using st [THEN conjunct1] by simp
  have setContent_type: "setContent_actionMetadata mainFrame contentParams (Some forgedMetadata) ''type'' =
       setContent_actionMetadata mainFrame contentParams (Some plainMetadata) ''type''"
    using ty [THEN conjunct2, THEN conjunct1] by simp
  have setContent_stack: "setContent_actionMetadata mainFrame contentParams (Some forgedMetadata) ''stack'' = spread (Some forgedMetadata) ''stack''"
    using st [THEN conjunct2, THEN conjunct1] by simp
  have click_type: "click_actionMetadata mainFrame shortSubmitParams (Some forgedMetadata) ''type'' =
       click_actionMetadata mainFrame shortSubmitParams (Some plainMetadata) ''type''"
    using ty [THEN conjunct2, THEN conjunct2, THEN conjunct1] by simp
  have click_stack: "click_actionMetadata mainFrame shortSubmitParams (Some forgedMetadata) ''stack'' = spread (Some forgedMetadata) ''stack''"
    using st [THEN conjunct2, THEN conjunct2, THEN conjunct1] by simp
  have dblclick_type: "dblclick_actionMetadata mainFrame shortSubmitParams (Some forgedMetadata) ''type'' =
       dblclick_actionMetadata mainFrame shortSubmitParams (Some plainMetadata) ''type''"
    using ty [THEN conjunct2, THEN conjunct2, THEN conjunct2, THEN conjunct1] by simp
  have dblclick_stack: "dblclick_actionMetadata mainFrame shortSubmitParams (Some forgedMetadata) ''stack'' = spread (Some forgedMetadata) ''stack''"
    using st [THEN conjunct2, THEN conjunct2, THEN conjunct2, THEN conjunct1] by simp
  have fill_type: "fill_actionMetadata mainFrame shortFillParams (Some forgedMetadata) ''type'' =
       fill_actionMetadata mainFrame shortFillParams (Some plainMetadata) ''type''"
    using ty [THEN conjunct2, THEN conjunct2, THEN conjunct2, THEN conjunct2, THEN conjunct1] by simp
  have fill_stack: "fill_actionMetadata mainFrame shortFillParams (Some forgedMetadata) ''stack'' = spread (Some forgedMetadata) ''stack''"
    using st [THEN conjunct2, THEN conjunct2, THEN conjunct2, THEN conjunct2, THEN conjunct1] by simp
  have hover_type: "hover_actionMetadata mainFrame shortSubmitParams (Some forgedMetadata) ''type'' =
       hover_actionMetadata mainFrame shortSubmitParams (Some plainMetadata) ''type''"
    using ty [THEN conjunct2, THEN conjunct2, THEN conjunct2, THEN conjunct2, THEN conjunct2, THEN conjunct1] by simp
  have hover_stack: "hover_actionMetadata mainFrame shortSubmitParams (Some forgedMetadata) ''stack'' = spread (Some forgedMetadata) ''stack''"
    using st [THEN conjunct2, THEN conjunct2, THEN conjunct2, THEN conjunct2, THEN conjunct2, THEN conjunct1] by simp
  have selectOption_type: "selectOption_actionMetadata mainFrame shortSelectParams (Some forgedMetadata) ''type'' =
       selectOption_actionMetadata mainFrame shortSelectParams (Some plainMetadata) ''type''"
    using ty [THEN conjunct2, THEN conjunct2, THEN conjunct2, THEN conjunct2, THEN conjunct2, THEN conjunct2, THEN conjunct1] by simp
  have selectOption_stack: "selectOption_actionMetadata mainFrame shortSelectParams (Some forgedMetadata) ''stack'' = spread (Some forgedMetadata) ''stack''"
    using st [THEN conjunct2, THEN conjunct2, THEN conjunct2, THEN conjunct2, THEN conjunct2, THEN conjunct2, THEN conjunct1] by simp
  have setInputFiles_type: "setInputFiles_actionMetadata mainFrame shortFilesParams (Some forgedMetadata) ''type'' =
       setInputFiles_actionMetadata mainFrame shortFilesParams (Some plainMetadata) ''type''"
    using ty [THEN conjunct2, THEN conjunct2, THEN conjunct2, THEN conjunct2, THEN conjunct2, THEN conjunct2, THEN conjunct2, THEN conjunct1] by simp
  have setInputFiles_stack: "setInputFiles_actionMetadata mainFrame shortFilesParams (Some forgedMetadata) ''stack'' = spread (Some forgedMetadata) ''stack''"
    using st [THEN conjunct2, THEN conjunct2, THEN conjunct2, THEN conjunct2, THEN conjunct2, THEN conjunct2, THEN conjunct2, THEN conjunct1] by simp
  have type_type: "type_actionMetadata mainFrame shortTypeParams (Some forgedMetadata) ''type'' =
       type_actionMetadata mainFrame shortTypeParams (Some plainMetadata) ''type''"
    using ty [THEN conjunct2, THEN conjunct2, THEN conjunct2, THEN conjunct2, THEN conjunct2, THEN conjunct2, THEN conjunct2, THEN conjunct2, THEN conjunct1] by simp
  have type_stack: "type_actionMetadata mainFrame shortTypeParams (Some forgedMetadata) ''stack'' = spread (Some forgedMetadata) ''stack''"
    using st [THEN conjunct2, THEN conjunct2, THEN conjunct2, THEN conjunct2, THEN conjunct2, THEN conjunct2, THEN conjunct2, THEN conjunct2, THEN conjunct1] by simp
  have press_type: "press_actionMetadata mainFrame shortPressParams (Some forgedMetadata) ''type'' =
       press_actionMetadata mainFrame shortPressParams (Some plainMetadata) ''type''"
    using ty [THEN conjunct2, THEN conjunct2, THEN conjunct2, THEN conjunct2, THEN conjunct2, THEN conjunct2, THEN conjunct2, THEN conjunct2, THEN conjunct2, THEN conjunct1] by simp
  have press_stack: "press_actionMetadata mainFrame shortPressParams (Some forgedMetadata) ''stack'' = spread (Some forgedMetadata) ''stack''"
    using st [THEN conjunct2, THEN conjunct2, THEN conjunct2, THEN conjunct2, THEN conjunct2, THEN conjunct2, THEN conjunct2, THEN conjunct2, THEN conjunct2, THEN conjunct1] by simp
  have check_type: "check_actionMetadata mainFrame shortSubmitParams (Some forgedMetadata) ''type'' =
       check_actionMetadata mainFrame shortSubmitParams (Some plainMetadata) ''type''"
    using ty [THEN conjunct2, THEN conjunct2, THEN conjunct2, THEN conjunct2, THEN conjunct2, THEN conjunct2, THEN conjunct2, THEN conjunct2, THEN conjunct2, THEN conjunct2, THEN conjunct1] by simp
  have check_stack: "check_actionMetadata mainFrame shortSubmitParams (Some forgedMetadata) ''stack'' = spread (Some forgedMetadata) ''stack''"
    using st [THEN conjunct2, THEN conjunct2, THEN conjunct2, THEN conjunct2, THEN conjunct2, THEN conjunct2, THEN conjunct2, THEN conjunct2, THEN conjunct2, THEN conjunct2, THEN conjunct1] by simp
  have uncheck_type: "uncheck_actionMetadata mainFrame shortSubmitParams (Some forgedMetadata) ''type'' =
       uncheck_actionMetadata mainFrame shortSubmitParams (Some plainMetadata) ''type''"
    using ty [THEN conjunct2, THEN conjunct2, THEN conjunct2, THEN conjunct2, THEN conjunct2, THEN conjunct2, THEN conjunct2, THEN conjunct2, THEN conjunct2, THEN conjunct2, THEN conjunct2] by simp
  have uncheck_stack: "uncheck_actionMetadata mainFrame shortSubmitParams (Some forgedMetadata) ''stack'' = spread (Some forgedMetadata) ''stack''"
    using st [THEN conjunct2, THEN conjunct2, THEN conjunct2, THEN conjunct2, THEN conjunct2, THEN conjunct2, THEN conjunct2, THEN conjunct2, THEN conjunct2, THEN conjunct2, THEN conjunct2] by simp
  have click_target: "click_actionMetadata mainFrame shortSubmitParams (Some forgedMetadata) ''target'' =
       click_actionMetadata mainFrame shortSubmitParams (Some plainMetadata) ''target''"
    using tg [THEN conjunct2, THEN conjunct2, THEN conjunct1] by simp
  have click_value: "click_actionMetadata mainFrame shortSubmitParams (Some forgedMetadata) ''value'' =
       spread (Some forgedMetadata) ''value''"
    using va [THEN conjunct2, THEN conjunct2, THEN conjunct1] by simp
  have sp: "spread (Some forgedMetadata) ''value'' = Some (MStr ''forged value'')" "spread (Some forgedMetadata) ''stack'' = Some (MStr ''at test.js:1'')"
    by (simp_all add: spread_def forgedMetadata_def)
  show ?thesis
    by (intro conjI goto_type goto_stack setContent_type setContent_stack click_type click_stack dblclick_type dblclick_stack fill_type fill_stack hover_type hover_stack selectOption_type selectOption_stack setInputFiles_type setInputFiles_stack type_type type_stack press_type press_stack check_type check_stack uncheck_type uncheck_stack click_target click_value sp)
qed

text \<open>
  C9 as it is stated does not hold for a click whose incoming metadata holds a
  \<^verbatim>\<open>value\<close> key: the key is in the action metadata handed to the runner and in the
  timeout it produces.  A goto whose incoming metadata holds a \<^verbatim>\<open>target\<close> key keeps
  it likewise.  The same calls without those incoming keys have no such field.
\<close>

theorem forged_value_reaches_runner:
  "click_actionMetadata mainFrame shortSubmitParams (Some forgedMetadata) ''value'' =
     Some (MStr ''forged value'')
   \<and> click_actionMetadata mainFrame shortSubmitParams (Some plainMetadata) ''value'' = None
   \<and> fst (click mainFrame shortSubmitParams (Some forgedMetadata) mainScope) =
       Inl (TimeoutError (click_actionMetadata mainFrame shortSubmitParams (Some forgedMetadata)))
   \<and> fst (click mainFrame shortSubmitParams (Some plainMetadata) mainScope) =
       Inl (TimeoutError (click_actionMetadata mainFrame shortSubmitParams (Some plainMetadata)))
   \<and> goto_actionMetadata mainFrame gotoParams (Some forgedMetadata) ''target'' = Some (MStr ''#forged'')
   \<and> goto_actionMetadata mainFrame gotoParams (Some plainMetadata) ''target'' = None"
proof -
  have a: "click_actionMetadata mainFrame shortSubmitParams (Some forgedMetadata) ''value'' =
     Some (MStr ''forged value'')"
    and b: "click_actionMetadata mainFrame shortSubmitParams (Some plainMetadata) ''value'' = None"
    and e: "goto_actionMetadata mainFrame gotoParams (Some forgedMetadata) ''target'' = Some (MStr ''#forged'')"
    and f: "goto_actionMetadata mainFrame gotoParams (Some plainMetadata) ''target'' = None"
    by (simp_all add: click_actionMetadata_def goto_actionMetadata_def spread_def forgedMetadata_def
          plainMetadata_def)
  have c: "fst (click mainFrame shortSubmitParams (Some forgedMetadata) mainScope) =
       Inl (TimeoutError (click_actionMetadata mainFrame shortSubmitParams (Some forgedMetadata)))"
    and d: "fst (click mainFrame shortSubmitParams (Some plainMetadata) mainScope) =
       Inl (TimeoutError (click_actionMetadata mainFrame shortSubmitParams (Some plainMetadata)))"
    by (simp_all add: click_def runAbortableTask_def controller_run_def ProgressController_new_def timeout_def Let_def
          mainFrame_def sampleOps_def samplePage_def shortSubmitParams_def)
  show ?thesis
    by (intro conjI a b c d e f)
qed

end
